theory Spec2Isabelle
  imports Main
begin

section \<open>JavaScript values\<close>

text \<open>
  The data that crosses the dispatcher is JSON. A JavaScript value that may be
  \<^verbatim>\<open>undefined\<close> is a \<open>json option\<close>, with \<open>None\<close> for \<^verbatim>\<open>undefined\<close>.
  Numbers are restricted to integers: no operation modelled here computes with them.
\<close>

datatype json =
    JNull
  | JBool bool
  | JNum int
  | JStr string
  | JArr "json list"
  | JObj "(string \<times> json) list"

type_synonym jsval = "json option"

text \<open>Truthiness, as \<^verbatim>\<open>if (v)\<close>, \<^verbatim>\<open>!v\<close> and \<^verbatim>\<open>v || d\<close> test it.\<close>

fun truthy :: "jsval \<Rightarrow> bool" where
  "truthy None = False"
| "truthy (Some JNull) = False"
| "truthy (Some (JBool b)) = b"
| "truthy (Some (JNum n)) = (n \<noteq> 0)"
| "truthy (Some (JStr s)) = (s \<noteq> [])"
| "truthy (Some (JArr xs)) = True"
| "truthy (Some (JObj kvs)) = True"

text \<open>A parameter default \<^verbatim>\<open>f(x = d)\<close> replaces \<^verbatim>\<open>undefined\<close> only.\<close>

fun withDefault :: "jsval \<Rightarrow> json \<Rightarrow> json" where
  "withDefault None d = d"
| "withDefault (Some v) d = v"

text \<open>
  Property read \<^verbatim>\<open>v.k\<close> on a value that is neither \<^verbatim>\<open>null\<close> nor \<^verbatim>\<open>undefined\<close>. An object
  built by \<^verbatim>\<open>JSON.parse\<close> keeps the last of two equal keys. A value that is no object
  reads as \<^verbatim>\<open>undefined\<close> at every key that the code reads from parsed input (the one
  inherited property among them, \<^verbatim>\<open>values\<close> of an array, is tested only together with
  \<^verbatim>\<open>selector\<close>, which an array lacks).
\<close>

fun getProp :: "json \<Rightarrow> string \<Rightarrow> jsval" where
  "getProp (JObj kvs) k = map_of (rev kvs) k"
| "getProp v k = None"

text \<open>An object literal; a field whose value is \<^verbatim>\<open>undefined\<close> reads as absent.\<close>

definition mkObj :: "(string \<times> jsval) list \<Rightarrow> json" where
  "mkObj kvs = JObj (List.map_filter (\<lambda>(k, v). map_option (Pair k) v) kvs)"

text \<open>String conversion, as a template literal \<^verbatim>\<open>`${v}`\<close> performs it.\<close>

fun showNat :: "nat \<Rightarrow> string" where
  "showNat n =
     (if n < 10 then [''0123456789'' ! n] else showNat (n div 10) @ [''0123456789'' ! (n mod 10)])"

definition showInt :: "int \<Rightarrow> string" where
  "showInt i = (if i < 0 then CHR ''-'' # showNat (nat (- i)) else showNat (nat i))"

fun joinWith :: "string \<Rightarrow> string list \<Rightarrow> string" where
  "joinWith sep [] = []"
| "joinWith sep [x] = x"
| "joinWith sep (x # y # ys) = x @ sep @ joinWith sep (y # ys)"

fun toString :: "json \<Rightarrow> string" where
  "toString JNull = ''null''"
| "toString (JBool b) = (if b then ''true'' else ''false'')"
| "toString (JNum n) = showInt n"
| "toString (JStr s) = s"
| "toString (JArr xs) = joinWith '','' (map (\<lambda>x. if x = JNull then [] else toString x) xs)"
| "toString (JObj kvs) = ''[object Object]''"

fun toStringV :: "jsval \<Rightarrow> string" where
  "toStringV None = ''undefined''"
| "toStringV (Some v) = toString v"

text \<open>
  Thrown values. \<open>Error\<close>, \<open>TypeError\<close> and \<open>SyntaxError\<close> carry their message,
  \<open>BrowserError\<close> (types/index.js) its message and its suggestion.
\<close>

datatype jserror =
    Error string
  | TypeError string
  | SyntaxError string
  | BrowserError string string

fun message :: "jserror \<Rightarrow> string" where
  "message (Error m) = m"
| "message (TypeError m) = m"
| "message (SyntaxError m) = m"
| "message (BrowserError m s) = m"

text \<open>The engine's message for a property read on \<^verbatim>\<open>null\<close> or \<^verbatim>\<open>undefined\<close>.\<close>

definition cannotRead :: "string \<Rightarrow> string \<Rightarrow> string" where
  "cannotRead what key =
     ''Cannot read properties of '' @ what @ '' (reading '' @ [CHR 0x27] @ key @ [CHR 0x27] @ '')''"

fun suggestion :: "jserror \<Rightarrow> string option" where
  "suggestion (Error m) = None"
| "suggestion (TypeError m) = None"
| "suggestion (SyntaxError m) = None"
| "suggestion (BrowserError m s) = Some s"

section \<open>Asynchronous functions\<close>

text \<open>
  An \<^verbatim>\<open>async\<close> function is a tree of its steps. Between two suspension points it reads
  (\<open>Get\<close>) and writes (\<open>Put\<close>) the process state and prints to standard output
  (\<open>Emit\<close>). \<open>Ask\<close> is the synchronous query \<^verbatim>\<open>browser.isConnected()\<close>, \<open>Sync\<close> any
  other synchronous call of the driver (\<^verbatim>\<open>page.url()\<close>, \<^verbatim>\<open>page.on\<close>, \<^verbatim>\<open>page.once\<close>). \<open>Create\<close> and
  \<open>Call\<close> are awaited calls into the browser driver, which settle as rejected (with the
  driver's message) or fulfilled; \<open>Yield\<close> is an \<^verbatim>\<open>await\<close> of a value that is no pending
  driver call. Objects of the driver (browser, context, page) are handles.

  Diagnostic output is left out: \<^verbatim>\<open>console.error\<close>, and the lines that \<^verbatim>\<open>log()\<close> prints
  when the debug flag is set. Neither changes the state or the control flow.
\<close>

type_synonym handle = nat

datatype 'a settled = Rejected string | Fulfilled 'a

datatype creation =
    Launch json
  | NewContext handle
  | NewPage handle

datatype pagecall =
    PageClose handle
  | ContextClose handle
  | BrowserClose handle
  | PageMethod handle string "jsval list"

datatype syncop =
    PageUrl handle
  | PageOn handle string
  | PageOnce handle string "jsval list"

datatype ('s, 'o, 'a) prog =
    Return 'a
  | Yield "('s, 'o, 'a) prog"
  | Get "'s \<Rightarrow> ('s, 'o, 'a) prog"
  | Put 's "('s, 'o, 'a) prog"
  | Emit 'o "('s, 'o, 'a) prog"
  | Ask handle "bool \<Rightarrow> ('s, 'o, 'a) prog"
  | Sync syncop "jsval \<Rightarrow> ('s, 'o, 'a) prog"
  | Create creation "handle settled \<Rightarrow> ('s, 'o, 'a) prog"
  | Call pagecall "jsval settled \<Rightarrow> ('s, 'o, 'a) prog"

primrec bind :: "('s, 'o, 'a) prog \<Rightarrow> ('a \<Rightarrow> ('s, 'o, 'b) prog) \<Rightarrow> ('s, 'o, 'b) prog" where
  "bind (Return a) f = f a"
| "bind (Yield p) f = Yield (bind p f)"
| "bind (Get k) f = Get (\<lambda>s. bind (k s) f)"
| "bind (Put s p) f = Put s (bind p f)"
| "bind (Emit x p) f = Emit x (bind p f)"
| "bind (Ask h k) f = Ask h (\<lambda>b. bind (k b) f)"
| "bind (Sync q k) f = Sync q (\<lambda>v. bind (k v) f)"
| "bind (Create c k) f = Create c (\<lambda>r. bind (k r) f)"
| "bind (Call c k) f = Call c (\<lambda>r. bind (k r) f)"

text \<open>
  A function that may throw returns \<open>jserror + 'a\<close>; \<open>Inl\<close> is the thrown value (for an
  \<^verbatim>\<open>async\<close> function, the rejection of its promise).
\<close>

definition throw :: "jserror \<Rightarrow> ('s, 'o, jserror + 'a) prog" where
  "throw e = Return (Inl e)"

definition andThen ::
  "('s, 'o, jserror + 'a) prog \<Rightarrow> ('a \<Rightarrow> ('s, 'o, jserror + 'b) prog) \<Rightarrow> ('s, 'o, jserror + 'b) prog" where
  "andThen p f = bind p (\<lambda>r. case r of Inl e \<Rightarrow> Return (Inl e) | Inr v \<Rightarrow> f v)"

definition tryCatch ::
  "('s, 'o, jserror + 'a) prog \<Rightarrow> (jserror \<Rightarrow> ('s, 'o, jserror + 'a) prog) \<Rightarrow> ('s, 'o, jserror + 'a) prog" where
  "tryCatch p h = bind p (\<lambda>r. case r of Inl e \<Rightarrow> h e | Inr v \<Rightarrow> Return (Inr v))"

text \<open>\<^verbatim>\<open>await p\<close> of the promise of another \<^verbatim>\<open>async\<close> function: the caller resumes in a later turn.\<close>

definition await ::
  "('s, 'o, jserror + 'a) prog \<Rightarrow> ('a \<Rightarrow> ('s, 'o, jserror + 'b) prog) \<Rightarrow> ('s, 'o, jserror + 'b) prog" where
  "await p f = bind p (\<lambda>r. Yield (case r of Inl e \<Rightarrow> Return (Inl e) | Inr v \<Rightarrow> f v))"

definition awaitCreate ::
  "creation \<Rightarrow> (handle \<Rightarrow> ('s, 'o, jserror + 'a) prog) \<Rightarrow> ('s, 'o, jserror + 'a) prog" where
  "awaitCreate c f = Create c (\<lambda>r. case r of Rejected m \<Rightarrow> throw (Error m) | Fulfilled h \<Rightarrow> f h)"

definition awaitCall ::
  "pagecall \<Rightarrow> (jsval \<Rightarrow> ('s, 'o, jserror + 'a) prog) \<Rightarrow> ('s, 'o, jserror + 'a) prog" where
  "awaitCall c f = Call c (\<lambda>r. case r of Rejected m \<Rightarrow> throw (Error m) | Fulfilled v \<Rightarrow> f v)"

subsection \<open>Running one function to its end\<close>

text \<open>
  The environment answers every interaction; its answers may depend on how many
  interactions came before (the index). \<open>run\<close> executes a function with nothing else
  interleaved and returns its result, the final state, the driver calls and prints in
  order, and the next index.
\<close>

record env =
  isConnected :: "nat \<Rightarrow> handle \<Rightarrow> bool"
  synced :: "nat \<Rightarrow> syncop \<Rightarrow> jsval"
  created :: "nat \<Rightarrow> creation \<Rightarrow> handle settled"
  called :: "nat \<Rightarrow> pagecall \<Rightarrow> jsval settled"

datatype 'o event = Created creation | Called pagecall | Synced syncop | Printed 'o

primrec run :: "('s, 'o, 'a) prog \<Rightarrow> env \<Rightarrow> nat \<Rightarrow> 's \<Rightarrow> 'a \<times> 's \<times> 'o event list \<times> nat" where
  "run (Return a) e n s = (a, s, [], n)"
| "run (Yield p) e n s = run p e n s"
| "run (Get k) e n s = run (k s) e n s"
| "run (Put s' p) e n s = run p e n s'"
| "run (Emit x p) e n s =
     (case run p e n s of (a, s', tr, n') \<Rightarrow> (a, s', Printed x # tr, n'))"
| "run (Ask h k) e n s = run (k (isConnected e n h)) e (Suc n) s"
| "run (Sync q k) e n s =
     (case run (k (synced e n q)) e (Suc n) s of (a, s', tr, n') \<Rightarrow> (a, s', Synced q # tr, n'))"
| "run (Create c k) e n s =
     (case run (k (created e n c)) e (Suc n) s of (a, s', tr, n') \<Rightarrow> (a, s', Created c # tr, n'))"
| "run (Call c k) e n s =
     (case run (k (called e n c)) e (Suc n) s of (a, s', tr, n') \<Rightarrow> (a, s', Called c # tr, n'))"

section \<open>The browser driver facade (controllers/playwright.js)\<close>

text \<open>The field \<^verbatim>\<open>context\<close> is named \<open>browserContext\<close> here.\<close>

record BrowserState =
  browser :: "handle option"
  browserContext :: "handle option"
  page :: "handle option"
  debug :: json

record PlaywrightController =
  state :: BrowserState
  currentMousePosition :: "int \<times> int"

definition emptyState :: BrowserState where
  "emptyState = \<lparr>browser = None, browserContext = None, page = None, debug = JBool False\<rparr>"

definition playwrightController :: PlaywrightController where
  "playwrightController = \<lparr>state = emptyState, currentMousePosition = (0, 0)\<rparr>"

definition isInitialized ::
  "(bool \<Rightarrow> (PlaywrightController, 'o, 'a) prog) \<Rightarrow> (PlaywrightController, 'o, 'a) prog" where
  "isInitialized k =
     Get (\<lambda>c. case browser (state c) of
        None \<Rightarrow> k False
      | Some b \<Rightarrow> Ask b (\<lambda>conn.
          k (conn \<and> browserContext (state c) \<noteq> None \<and> page (state c) \<noteq> None)))"


definition returned :: "'a \<Rightarrow> ('s, 'o, jserror + 'a) prog" where
  "returned v = Return (Inr v)"

definition modify :: "('s \<Rightarrow> 's) \<Rightarrow> ('s, 'o, 'a) prog \<Rightarrow> ('s, 'o, 'a) prog" where
  "modify f p = Get (\<lambda>s. Put (f s) p)"

text \<open>
  The three statements of \<^verbatim>\<open>openBrowser\<close> after the early return, last first:
  \<^verbatim>\<open>this.state.page = await this.state.context.newPage()\<close>,
  \<^verbatim>\<open>this.state.context = await this.state.browser.newContext(...)\<close>,
  \<^verbatim>\<open>this.state.browser = await chromium.launch(...)\<close>.
  Each assignment writes the state that is current when the awaited call has settled;
  that is the state object the statement started with unless a \<^verbatim>\<open>closeBrowser\<close> has
  replaced it in between.
\<close>

definition newPageStep :: "(PlaywrightController, 'o, jserror + jsval) prog" where
  "newPageStep =
     Get (\<lambda>c. case browserContext (state c) of
        None \<Rightarrow> throw (TypeError (cannotRead ''null'' ''newPage''))
      | Some x \<Rightarrow> awaitCreate (NewPage x) (\<lambda>p.
          modify (\<lambda>c. c\<lparr>state := (state c)\<lparr>page := Some p\<rparr>\<rparr>) (returned None)))"

definition newContextStep :: "(PlaywrightController, 'o, jserror + jsval) prog" where
  "newContextStep =
     Get (\<lambda>c. case browser (state c) of
        None \<Rightarrow> throw (TypeError (cannotRead ''null'' ''newContext''))
      | Some b \<Rightarrow> awaitCreate (NewContext b) (\<lambda>x.
          modify (\<lambda>c. c\<lparr>state := (state c)\<lparr>browserContext := Some x\<rparr>\<rparr>) newPageStep))"

definition launchBrowser :: "jsval \<Rightarrow> (PlaywrightController, 'o, jserror + jsval) prog" where
  "launchBrowser headless =
     awaitCreate (Launch (withDefault headless (JBool False))) (\<lambda>b.
       modify (\<lambda>c. c\<lparr>state := (state c)\<lparr>browser := Some b\<rparr>\<rparr>) newContextStep)"

definition openBrowser :: "jsval \<Rightarrow> jsval \<Rightarrow> (PlaywrightController, 'o, jserror + jsval) prog" where
  "openBrowser headless dbg =
     tryCatch
       (modify (\<lambda>c. c\<lparr>state := (state c)\<lparr>debug := withDefault dbg (JBool False)\<rparr>\<rparr>)
       (Get (\<lambda>c. case browser (state c) of
          None \<Rightarrow> launchBrowser headless
        | Some b \<Rightarrow> Ask b (\<lambda>conn.
            if conn then returned None else launchBrowser headless))))
       (\<lambda>error. throw (BrowserError ''Failed to launch browser''
          (''Technical details: '' @
            (if message error = [] then ''Unknown error'' else message error))))"

text \<open>\<^verbatim>\<open>await this.state.page?.close()\<close> and its two siblings: no call when the field is null.\<close>

definition closeIfSet ::
  "(PlaywrightController \<Rightarrow> handle option) \<Rightarrow> (handle \<Rightarrow> pagecall) \<Rightarrow>
   (PlaywrightController, 'o, jserror + jsval) prog" where
  "closeIfSet field mk =
     Get (\<lambda>c. case field c of
        None \<Rightarrow> Yield (returned None)
      | Some h \<Rightarrow> awaitCall (mk h) (\<lambda>v. returned None))"

definition closeBrowser :: "(PlaywrightController, 'o, jserror + jsval) prog" where
  "closeBrowser =
     tryCatch
       (andThen (closeIfSet (\<lambda>c. page (state c)) PageClose) (\<lambda>u.
        andThen (closeIfSet (\<lambda>c. browserContext (state c)) ContextClose) (\<lambda>u.
        andThen (closeIfSet (\<lambda>c. browser (state c)) BrowserClose) (\<lambda>u.
        modify (\<lambda>c. c\<lparr>state := emptyState\<rparr>) (returned None)))))
       (\<lambda>error. throw (BrowserError ''Failed to close browser''
          ''The browser might have already been closed''))"

text \<open>
  Every other operation has one shape: inside \<^verbatim>\<open>try\<close>, the guard
  \<^verbatim>\<open>if (!this.isInitialized()) throw new Error('Browser not initialized')\<close> and then the
  body; the \<^verbatim>\<open>catch\<close> replaces whatever was thrown by the operation's own \<open>BrowserError\<close>.
  \<open>facadeP\<close> is the variant whose guard is \<^verbatim>\<open>!this.isInitialized() || !this.state.page\<close>.
\<close>

definition facade ::
  "string \<Rightarrow> string \<Rightarrow> (PlaywrightController, 'o, jserror + 'a) prog \<Rightarrow>
   (PlaywrightController, 'o, jserror + 'a) prog" where
  "facade msg hint body =
     tryCatch
       (isInitialized (\<lambda>init.
          if \<not> init then throw (Error ''Browser not initialized'') else body))
       (\<lambda>error. throw (BrowserError msg hint))"

definition facadeP ::
  "string \<Rightarrow> string \<Rightarrow> (PlaywrightController, 'o, jserror + 'a) prog \<Rightarrow>
   (PlaywrightController, 'o, jserror + 'a) prog" where
  "facadeP msg hint body =
     tryCatch
       (isInitialized (\<lambda>init. Get (\<lambda>c.
          if \<not> init \<or> page (state c) = None then throw (Error ''Browser not initialized'')
          else body)))
       (\<lambda>error. throw (BrowserError msg hint))"

text \<open>
  \<^verbatim>\<open>await this.state.page?.m(...)\<close>: with a null page nothing is called and the value is
  \<^verbatim>\<open>undefined\<close>. \<^verbatim>\<open>await this.state.page.m(...)\<close>: a null page is a \<open>TypeError\<close>.
  The method is given by its name (\<^verbatim>\<open>mouse.move\<close>, \<^verbatim>\<open>locator.hover\<close>); a function that is
  passed to \<^verbatim>\<open>evaluate\<close> is given by a name as the first argument.
\<close>

definition onPageOpt ::
  "string \<Rightarrow> jsval list \<Rightarrow> (jsval \<Rightarrow> (PlaywrightController, 'o, jserror + 'a) prog) \<Rightarrow>
   (PlaywrightController, 'o, jserror + 'a) prog" where
  "onPageOpt m args f =
     Get (\<lambda>c. case page (state c) of
        None \<Rightarrow> Yield (f None)
      | Some p \<Rightarrow> awaitCall (PageMethod p m args) f)"

definition onPage ::
  "string \<Rightarrow> jsval list \<Rightarrow> (jsval \<Rightarrow> (PlaywrightController, 'o, jserror + 'a) prog) \<Rightarrow>
   (PlaywrightController, 'o, jserror + 'a) prog" where
  "onPage m args f =
     Get (\<lambda>c. case page (state c) of
        None \<Rightarrow> throw (TypeError (cannotRead ''null'' m))
      | Some p \<Rightarrow> awaitCall (PageMethod p m args) f)"

definition onPageSync ::
  "(handle \<Rightarrow> syncop) \<Rightarrow> (jsval \<Rightarrow> (PlaywrightController, 'o, jserror + 'a) prog) \<Rightarrow>
   (PlaywrightController, 'o, jserror + 'a) prog" where
  "onPageSync mk f =
     Get (\<lambda>c. case page (state c) of
        None \<Rightarrow> throw (TypeError (cannotRead ''null'' ''on''))
      | Some p \<Rightarrow> Sync (mk p) f)"

text \<open>\<^verbatim>\<open>v || d\<close>\<close>

definition orElse :: "jsval \<Rightarrow> json \<Rightarrow> jsval" where
  "orElse v d = (if truthy v then v else Some d)"

definition num :: "int \<Rightarrow> jsval" where
  "num n = Some (JNum n)"

definition str :: "string \<Rightarrow> jsval" where
  "str s = Some (JStr s)"

definition setMouse :: "int \<Rightarrow> int \<Rightarrow> (PlaywrightController, 'o, jserror + jsval) prog" where
  "setMouse x y = modify (\<lambda>c. c\<lparr>currentMousePosition := (x, y)\<rparr>) (returned None)"

definition navigate :: "jsval \<Rightarrow> (PlaywrightController, 'o, jserror + jsval) prog" where
  "navigate url =
     facade ''Failed to navigate'' ''Check if the URL is valid and accessible''
       (onPageOpt ''goto'' [url] (\<lambda>v. returned None))"

definition goBack :: "(PlaywrightController, 'o, jserror + jsval) prog" where
  "goBack =
     facade ''Failed to go back'' ''Check if there is a previous page in history''
       (onPageOpt ''goBack'' [] (\<lambda>v. returned None))"

definition refresh :: "(PlaywrightController, 'o, jserror + jsval) prog" where
  "refresh =
     facade ''Failed to refresh page'' ''Check if the page is still accessible''
       (onPageOpt ''reload'' [] (\<lambda>v. returned None))"

definition click :: "jsval \<Rightarrow> (PlaywrightController, 'o, jserror + jsval) prog" where
  "click selector =
     facadeP ''Failed to click''
       (if truthy selector then ''Check if the element exists and is visible''
        else ''Check if mouse position is valid'')
       (if truthy selector then onPage ''click'' [selector] (\<lambda>v. returned None)
        else Get (\<lambda>c. onPage ''mouse.click''
               [num (fst (currentMousePosition c)), num (snd (currentMousePosition c))]
               (\<lambda>v. returned None)))"

definition typeText :: "jsval \<Rightarrow> jsval \<Rightarrow> (PlaywrightController, 'o, jserror + jsval) prog" where
  "typeText selector text =
     facade ''Failed to type text'' ''Check if the input element exists and is editable''
       (onPageOpt ''type'' [selector, text] (\<lambda>v. returned None))"

definition moveMouse :: "int \<Rightarrow> int \<Rightarrow> (PlaywrightController, 'o, jserror + jsval) prog" where
  "moveMouse x y =
     facade ''Failed to move mouse'' ''Check if coordinates are within viewport''
       (onPageOpt ''mouse.move'' [num x, num y] (\<lambda>v. setMouse x y))"

definition getPageSource :: "(PlaywrightController, 'o, jserror + jsval) prog" where
  "getPageSource =
     facade ''Failed to get page source'' ''Check if the page is loaded''
       (onPageOpt ''content'' [] (\<lambda>content. returned (orElse content (JStr []))))"

definition getPageText :: "(PlaywrightController, 'o, jserror + jsval) prog" where
  "getPageText =
     facade ''Failed to get page text'' ''Check if the page is loaded''
       (onPageOpt ''innerText'' [str ''body''] (\<lambda>text. returned (orElse text (JStr []))))"

definition getPageTitle :: "(PlaywrightController, 'o, jserror + jsval) prog" where
  "getPageTitle =
     facade ''Failed to get page title'' ''Check if the page is loaded''
       (onPageOpt ''title'' [] (\<lambda>title. returned (orElse title (JStr []))))"

definition getPageUrl :: "(PlaywrightController, 'o, jserror + jsval) prog" where
  "getPageUrl =
     facade ''Failed to get page URL'' ''Check if the page is loaded''
       (Get (\<lambda>c. case page (state c) of
          None \<Rightarrow> returned (Some (JStr []))
        | Some p \<Rightarrow> Sync (PageUrl p) (\<lambda>url. returned (orElse url (JStr [])))))"

definition scroll :: "int \<Rightarrow> int \<Rightarrow> jsval \<Rightarrow> (PlaywrightController, 'o, jserror + jsval) prog" where
  "scroll x y smooth =
     facadeP ''Failed to scroll'' ''Check if scroll values are valid''
       (onPage ''evaluate'' [str ''scrollPosition''] (\<lambda>beforeScroll.
        onPage ''evaluate''
          [str ''scrollBy'', Some (mkObj [(''x'', num x), (''y'', num y), (''smooth'', smooth)])] (\<lambda>v.
        onPage ''waitForTimeout'' [num (if truthy smooth then 500 else 100)] (\<lambda>v.
        onPage ''evaluate'' [str ''scrollPosition''] (\<lambda>afterScroll.
        returned (Some (mkObj [(''before'', beforeScroll), (''after'', afterScroll)])))))))"

definition screenshot :: "json \<Rightarrow> (PlaywrightController, 'o, jserror + jsval) prog" where
  "screenshot options =
     facadeP ''Failed to take screenshot''
       ''Check if the path is writable and element exists (if capturing element)''
       (if getProp options ''type'' = str ''element'' \<and> truthy (getProp options ''selector'') then
          onPage ''$'' [getProp options ''selector''] (\<lambda>element.
            if \<not> truthy element then throw (Error ''Element not found'')
            else onPage ''element.screenshot'' [getProp options ''selector'', getProp options ''path'']
                   (\<lambda>v. returned None))
        else if getProp options ''type'' = str ''viewport'' then
          onPage ''screenshot'' [Some (mkObj [(''path'', getProp options ''path'')])] (\<lambda>v. returned None)
        else
          onPage ''screenshot''
            [Some (mkObj [(''path'', getProp options ''path''), (''fullPage'', Some (JBool True))])]
            (\<lambda>v. returned None))"

definition inspectElement :: "jsval \<Rightarrow> (PlaywrightController, 'o, jserror + jsval) prog" where
  "inspectElement selector =
     facadeP ''Failed to inspect element'' ''Check if the element exists''
       (onPage ''$eval'' [selector, str ''elementInfo''] (\<lambda>info. returned info))"

definition getScripts :: "(PlaywrightController, 'o, jserror + jsval) prog" where
  "getScripts =
     facade ''Failed to get scripts'' ''Check if the page is loaded''
       (onPageOpt ''evaluate'' [str ''scripts''] (\<lambda>scripts. returned (orElse scripts (JArr []))))"

definition getStylesheets :: "(PlaywrightController, 'o, jserror + jsval) prog" where
  "getStylesheets =
     facade ''Failed to get stylesheets'' ''Check if the page is loaded''
       (onPageOpt ''evaluate'' [str ''stylesheets''] (\<lambda>sheets. returned (orElse sheets (JArr []))))"

definition getMetaTags :: "(PlaywrightController, 'o, jserror + jsval) prog" where
  "getMetaTags =
     facade ''Failed to get meta tags'' ''Check if the page is loaded''
       (onPageOpt ''evaluate'' [str ''metaTags''] (\<lambda>metaTags. returned (orElse metaTags (JArr []))))"

definition getLinks :: "(PlaywrightController, 'o, jserror + jsval) prog" where
  "getLinks =
     facade ''Failed to get links'' ''Check if the page is loaded''
       (onPageOpt ''evaluate'' [str ''links''] (\<lambda>links. returned (orElse links (JArr []))))"

definition getImages :: "(PlaywrightController, 'o, jserror + jsval) prog" where
  "getImages =
     facade ''Failed to get images'' ''Check if the page is loaded''
       (onPageOpt ''evaluate'' [str ''images''] (\<lambda>images. returned (orElse images (JArr []))))"

definition getForms :: "(PlaywrightController, 'o, jserror + jsval) prog" where
  "getForms =
     facade ''Failed to get forms'' ''Check if the page is loaded''
       (onPageOpt ''evaluate'' [str ''forms''] (\<lambda>forms. returned (orElse forms (JArr []))))"

definition getElementContent :: "jsval \<Rightarrow> (PlaywrightController, 'o, jserror + jsval) prog" where
  "getElementContent selector =
     facade ''Failed to get element content'' ''Check if the element exists''
       (onPageOpt ''evaluate'' [str ''elementContent'', selector] (\<lambda>content.
          returned (orElse content (JObj [(''html'', JStr []), (''text'', JStr [])]))))"

definition executeJavaScript :: "jsval \<Rightarrow> (PlaywrightController, 'o, jserror + jsval) prog" where
  "executeJavaScript script =
     facade ''Failed to execute JavaScript'' ''Check if the JavaScript syntax is valid''
       (onPageOpt ''evaluate'' [str ''wrappedEval'', script] (\<lambda>result. returned result))"

definition getElementHierarchy ::
  "jsval \<Rightarrow> jsval \<Rightarrow> jsval \<Rightarrow> jsval \<Rightarrow> (PlaywrightController, 'o, jserror + jsval) prog" where
  "getElementHierarchy selector maxDepth includeText includeAttributes =
     facade ''Failed to get element hierarchy'' ''Check if the selector exists''
       (onPageOpt ''evaluate''
          [str ''elementHierarchy'',
           Some (mkObj [(''selector'', Some (withDefault selector (JStr ''body''))),
                        (''maxDepth'', Some (withDefault maxDepth (JNum 3))),
                        (''includeText'', Some (withDefault includeText (JBool False))),
                        (''includeAttributes'', Some (withDefault includeAttributes (JBool False)))])]
          (\<lambda>hierarchy. returned hierarchy))"

definition goForward :: "(PlaywrightController, 'o, jserror + jsval) prog" where
  "goForward =
     facadeP ''Failed to go forward'' ''Check if there is a next page in history''
       (onPage ''goForward'' [] (\<lambda>v. returned None))"

definition hover :: "jsval \<Rightarrow> (PlaywrightController, 'o, jserror + jsval) prog" where
  "hover selector =
     facadeP ''Failed to hover over element'' ''Check if the selector exists and is visible''
       (onPage ''locator.hover'' [selector] (\<lambda>v. returned None))"

definition dragAndDrop :: "jsval \<Rightarrow> jsval \<Rightarrow> (PlaywrightController, 'o, jserror + jsval) prog" where
  "dragAndDrop sourceSelector targetSelector =
     facadeP ''Failed to drag and drop'' ''Check if both selectors exist and are interactable''
       (onPage ''locator.dragTo'' [sourceSelector, targetSelector] (\<lambda>v. returned None))"

definition selectOption :: "jsval \<Rightarrow> jsval \<Rightarrow> (PlaywrightController, 'o, jserror + jsval) prog" where
  "selectOption selector values =
     facadeP ''Failed to select option'' ''Check if the selector exists and values are valid''
       (onPage ''locator.selectOption'' [selector, values] (\<lambda>v. returned None))"

definition pressKey :: "jsval \<Rightarrow> (PlaywrightController, 'o, jserror + jsval) prog" where
  "pressKey key =
     facadeP ''Failed to press key'' ''Check if the key name is valid''
       (onPage ''keyboard.press'' [key] (\<lambda>v. returned None))"

definition waitForText :: "jsval \<Rightarrow> jsval \<Rightarrow> (PlaywrightController, 'o, jserror + jsval) prog" where
  "waitForText text timeout =
     facadeP ''Text not found within timeout'' ''Check if the text appears on the page''
       (onPage ''waitForSelector''
          [str (''text='' @ toStringV text),
           Some (mkObj [(''timeout'', Some (withDefault timeout (JNum 30000)))])]
          (\<lambda>v. returned None))"

definition waitForSelector :: "jsval \<Rightarrow> jsval \<Rightarrow> (PlaywrightController, 'o, jserror + jsval) prog" where
  "waitForSelector selector timeout =
     facadeP ''Selector not found within timeout'' ''Check if the selector appears on the page''
       (onPage ''waitForSelector''
          [selector, Some (mkObj [(''timeout'', Some (withDefault timeout (JNum 30000)))])]
          (\<lambda>v. returned None))"

definition resize :: "int \<Rightarrow> int \<Rightarrow> (PlaywrightController, 'o, jserror + jsval) prog" where
  "resize width height =
     facadeP ''Failed to resize viewport'' ''Check if width and height are positive numbers''
       (onPage ''setViewportSize'' [Some (mkObj [(''width'', num width), (''height'', num height)])]
          (\<lambda>v. returned None))"

definition handleDialog :: "bool \<Rightarrow> jsval \<Rightarrow> (PlaywrightController, 'o, jserror + jsval) prog" where
  "handleDialog accept promptText =
     facadeP ''Failed to handle dialog'' ''Check if there is a dialog to handle''
       (onPageSync (\<lambda>p. PageOnce p ''dialog'' [Some (JBool accept), promptText])
          (\<lambda>v. returned None))"

definition getConsoleMessages :: "(PlaywrightController, 'o, jserror + jsval) prog" where
  "getConsoleMessages =
     facadeP ''Failed to get console messages'' ''Browser console monitoring error''
       (onPageSync (\<lambda>p. PageOn p ''console'') (\<lambda>v. returned (Some (JArr []))))"

definition getNetworkRequests :: "(PlaywrightController, 'o, jserror + jsval) prog" where
  "getNetworkRequests =
     facadeP ''Failed to get network requests'' ''Network monitoring error''
       (onPageSync (\<lambda>p. PageOn p ''request'') (\<lambda>v.
        onPageSync (\<lambda>p. PageOn p ''response'') (\<lambda>v. returned (Some (JArr [])))))"

definition uploadFiles :: "jsval \<Rightarrow> jsval \<Rightarrow> (PlaywrightController, 'o, jserror + jsval) prog" where
  "uploadFiles selector filePaths =
     facadeP ''Failed to upload files'' ''Check if selector is a file input and files exist''
       (onPage ''locator.setInputFiles'' [selector, filePaths] (\<lambda>v. returned None))"

definition evaluateWithReturn :: "jsval \<Rightarrow> (PlaywrightController, 'o, jserror + jsval) prog" where
  "evaluateWithReturn script =
     facadeP ''Failed to evaluate JavaScript'' ''Check if the script is valid JavaScript''
       (onPage ''evaluate'' [script] (\<lambda>result. returned result))"

definition takeScreenshot :: "jsval \<Rightarrow> jsval \<Rightarrow> jsval \<Rightarrow> (PlaywrightController, 'o, jserror + jsval) prog" where
  "takeScreenshot path fullPage element =
     facadeP ''Failed to take screenshot'' ''Check if the path is writable''
       (if truthy element then
          onPage ''locator.screenshot'' [element, Some (mkObj [(''path'', path)])] (\<lambda>v. returned None)
        else
          onPage ''screenshot'' [Some (mkObj [(''path'', path), (''fullPage'', fullPage)])]
            (\<lambda>v. returned None))"

definition mouseMove :: "int \<Rightarrow> int \<Rightarrow> (PlaywrightController, 'o, jserror + jsval) prog" where
  "mouseMove x y =
     facadeP ''Failed to move mouse'' ''Check if coordinates are valid''
       (onPage ''mouse.move'' [num x, num y] (\<lambda>v. setMouse x y))"

definition mouseClick :: "int \<Rightarrow> int \<Rightarrow> (PlaywrightController, 'o, jserror + jsval) prog" where
  "mouseClick x y =
     facadeP ''Failed to click at coordinates'' ''Check if coordinates are valid''
       (onPage ''mouse.click'' [num x, num y] (\<lambda>v. setMouse x y))"

definition mouseDrag :: "int \<Rightarrow> int \<Rightarrow> int \<Rightarrow> int \<Rightarrow> (PlaywrightController, 'o, jserror + jsval) prog" where
  "mouseDrag startX startY endX endY =
     facadeP ''Failed to drag mouse'' ''Check if coordinates are valid''
       (onPage ''mouse.move'' [num startX, num startY] (\<lambda>v.
        onPage ''mouse.down'' [] (\<lambda>v.
        onPage ''mouse.move'' [num endX, num endY] (\<lambda>v.
        onPage ''mouse.up'' [] (\<lambda>v. setMouse endX endY)))))"

section \<open>The tool registry and the call handler (server.js)\<close>

text \<open>The registry \<^verbatim>\<open>tools\<close>, by its keys in order; descriptions and schemas are left out.\<close>

definition tools :: "string list" where
  "tools =
     [''openBrowser'', ''navigate'', ''type'', ''click'', ''moveMouse'', ''scroll'', ''screenshot'',
      ''getPageSource'', ''getPageText'', ''getPageTitle'', ''getPageUrl'', ''getScripts'',
      ''getStylesheets'', ''getMetaTags'', ''getLinks'', ''getImages'', ''getForms'',
      ''getElementContent'', ''getElementHierarchy'', ''executeJavaScript'', ''goForward'', ''hover'',
      ''dragAndDrop'', ''selectOption'', ''pressKey'', ''waitForText'', ''waitForSelector'', ''resize'',
      ''handleDialog'', ''getConsoleMessages'', ''getNetworkRequests'', ''uploadFiles'',
      ''evaluateWithReturn'', ''takeScreenshot'', ''mouseMove'', ''mouseClick'', ''mouseDrag'',
      ''closeBrowser'']"

text \<open>
  The text of a content block: a string that the server builds (\<open>Lit\<close>), a value of the
  driver used as it is (\<open>Str\<close>), or a rendering that is not computed here:
  \<^verbatim>\<open>JSON.stringify(v, null, 2)\<close> (\<open>Stringify2\<close>) and the scroll report, which is
  \<^verbatim>\<open>JSON.stringify\<close> of the message, the two positions and their difference.
\<close>

datatype blockText =
    Lit string
  | Str jsval
  | Stringify2 jsval
  | ScrollReport json json

record ToolResponse =
  content :: "blockText list"
  isError :: bool

record CallToolRequest =
  name :: jsval
  arguments :: jsval

definition success :: "blockText \<Rightarrow> ('s, 'o, jserror + ToolResponse) prog" where
  "success t = returned \<lparr>content = [t], isError = False\<rparr>"

definition failure :: "string \<Rightarrow> ('s, 'o, jserror + ToolResponse) prog" where
  "failure m = returned \<lparr>content = [Lit m], isError = True\<rparr>"

text \<open>The first read of a property of \<^verbatim>\<open>args\<close> throws when \<^verbatim>\<open>args\<close> is \<^verbatim>\<open>null\<close>.\<close>

definition reading :: "json \<Rightarrow> string \<Rightarrow> ('s, 'o, jserror + 'a) prog \<Rightarrow> ('s, 'o, jserror + 'a) prog" where
  "reading args k p = (if args = JNull then throw (TypeError (cannotRead ''null'' k)) else p)"

text \<open>
  \<^verbatim>\<open>typeof v === 'string'\<close>, \<^verbatim>\<open>'number'\<close> and \<^verbatim>\<open>'boolean'\<close>, and the number or boolean
  that a value which passed the test holds.
\<close>

fun isString :: "jsval \<Rightarrow> bool" where
  "isString (Some (JStr s)) = True"
| "isString v = False"

fun isNumber :: "jsval \<Rightarrow> bool" where
  "isNumber (Some (JNum n)) = True"
| "isNumber v = False"

fun numberOf :: "jsval \<Rightarrow> int" where
  "numberOf (Some (JNum n)) = n"
| "numberOf v = 0"

fun isBoolean :: "jsval \<Rightarrow> bool" where
  "isBoolean (Some (JBool b)) = True"
| "isBoolean v = False"

fun booleanOf :: "jsval \<Rightarrow> bool" where
  "booleanOf (Some (JBool b)) = b"
| "booleanOf v = False"

text \<open>\<^verbatim>\<open>xs.join('\n')\<close> of the value that \<^verbatim>\<open>getScripts\<close> or \<^verbatim>\<open>getStylesheets\<close> returned.\<close>

fun joinLines :: "jsval \<Rightarrow> ('s, 'o, jserror + ToolResponse) prog" where
  "joinLines (Some (JArr xs)) =
     success (Lit (joinWith [CHR 0x0A] (map (\<lambda>x. if x = JNull then [] else toString x) xs)))"
| "joinLines v = throw (TypeError ''join is not a function'')"

text \<open>The text of the scroll case; \<^verbatim>\<open>scrollResult.after.x\<close> is read first.\<close>

fun scrollReport :: "jsval \<Rightarrow> ('s, 'o, jserror + ToolResponse) prog" where
  "scrollReport (Some r) =
     (case getProp r ''after'' of
        None \<Rightarrow> throw (TypeError (cannotRead ''undefined'' ''x''))
      | Some a \<Rightarrow>
          if a = JNull then throw (TypeError (cannotRead ''null'' ''x''))
          else
     (case getProp r ''before'' of
        None \<Rightarrow> throw (TypeError (cannotRead ''undefined'' ''x''))
      | Some b \<Rightarrow>
          if b = JNull then throw (TypeError (cannotRead ''null'' ''x''))
          else success (ScrollReport b a)))"
| "scrollReport None = throw (TypeError (cannotRead ''undefined'' ''before''))"

definition errorText :: "jserror \<Rightarrow> string" where
  "errorText error =
     ''Error: '' @ message error @
     (case suggestion error of
        None \<Rightarrow> []
      | Some s \<Rightarrow> if s = [] then [] else [CHR 0x0A] @ ''Suggestion: '' @ s)"

text \<open>
  The \<^verbatim>\<open>switch (name)\<close> of the handler (\<^verbatim>\<open>name\<close> is \<open>toolName\<close> here). Each case
  validates its arguments, awaits the facade and returns its success text;
  \<^verbatim>\<open>default\<close> is the last branch.
\<close>

definition toolSwitch ::
  "jsval \<Rightarrow> json \<Rightarrow> (PlaywrightController, 'o, jserror + ToolResponse) prog" where
  "toolSwitch toolName args =
    (if toolName = str ''openBrowser'' then
       reading args ''headless''
         (await (openBrowser (getProp args ''headless'') (getProp args ''debug''))
            (\<lambda>v. success (Lit ''Browser opened successfully'')))
     else if toolName = str ''navigate'' then
       reading args ''url''
         (if \<not> truthy (getProp args ''url'') \<or> \<not> isString (getProp args ''url'')
          then failure ''URL is required''
          else await (navigate (getProp args ''url'')) (\<lambda>v. success (Lit ''Navigation successful'')))
     else if toolName = str ''type'' then
       reading args ''selector''
         (if \<not> truthy (getProp args ''selector'') \<or> \<not> truthy (getProp args ''text'')
          then failure ''Selector and text are required''
          else await (typeText (getProp args ''selector'') (getProp args ''text''))
                 (\<lambda>v. success (Lit ''Text entered successfully'')))
     else if toolName = str ''click'' then
       reading args ''selector''
         (if \<not> truthy (getProp args ''selector'') then failure ''Selector is required''
          else await (click (getProp args ''selector'')) (\<lambda>v. success (Lit ''Click successful'')))
     else if toolName = str ''moveMouse'' then
       reading args ''x''
         (if \<not> isNumber (getProp args ''x'') \<or> \<not> isNumber (getProp args ''y'')
          then failure ''X and Y coordinates are required''
          else await (moveMouse (numberOf (getProp args ''x'')) (numberOf (getProp args ''y'')))
                 (\<lambda>v. success (Lit ''Mouse moved successfully'')))
     else if toolName = str ''scroll'' then
       reading args ''x''
         (if \<not> isNumber (getProp args ''x'') \<or> \<not> isNumber (getProp args ''y'')
          then failure ''X and Y scroll amounts are required''
          else await (scroll (numberOf (getProp args ''x'')) (numberOf (getProp args ''y''))
                        (orElse (getProp args ''smooth'') (JBool False)))
                 scrollReport)
     else if toolName = str ''screenshot'' then
       reading args ''path''
         (if \<not> truthy (getProp args ''path'') then failure ''Path is required''
          else await (screenshot args) (\<lambda>v. success (Lit ''Screenshot taken successfully'')))
     else if toolName = str ''getPageSource'' then
       await getPageSource (\<lambda>source. success (Str source))
     else if toolName = str ''getPageText'' then
       await getPageText (\<lambda>text. success (Str text))
     else if toolName = str ''getPageTitle'' then
       await getPageTitle (\<lambda>title. success (Str title))
     else if toolName = str ''getPageUrl'' then
       await getPageUrl (\<lambda>url. success (Str url))
     else if toolName = str ''getScripts'' then
       await getScripts joinLines
     else if toolName = str ''getStylesheets'' then
       await getStylesheets joinLines
     else if toolName = str ''getMetaTags'' then
       await getMetaTags (\<lambda>metaTags. success (Stringify2 metaTags))
     else if toolName = str ''getLinks'' then
       await getLinks (\<lambda>links. success (Stringify2 links))
     else if toolName = str ''getImages'' then
       await getImages (\<lambda>images. success (Stringify2 images))
     else if toolName = str ''getForms'' then
       await getForms (\<lambda>forms. success (Stringify2 forms))
     else if toolName = str ''getElementContent'' then
       reading args ''selector''
         (if \<not> truthy (getProp args ''selector'') then failure ''Selector is required''
          else await (getElementContent (getProp args ''selector''))
                 (\<lambda>content. success (Stringify2 content)))
     else if toolName = str ''getElementHierarchy'' then
       reading args ''selector''
         (await (getElementHierarchy
                   (orElse (getProp args ''selector'') (JStr ''body''))
                   (orElse (getProp args ''maxDepth'') (JNum 3))
                   (orElse (getProp args ''includeText'') (JBool False))
                   (orElse (getProp args ''includeAttributes'') (JBool False)))
            (\<lambda>hierarchy. success (Stringify2 hierarchy)))
     else if toolName = str ''executeJavaScript'' then
       reading args ''script''
         (if \<not> truthy (getProp args ''script'') \<or> \<not> isString (getProp args ''script'')
          then failure ''JavaScript script is required''
          else await (executeJavaScript (getProp args ''script'')) (\<lambda>result.
                 success (if result \<noteq> None then Stringify2 result
                          else Lit ''Script executed successfully (no return value)'')))
     else if toolName = str ''goForward'' then
       await goForward (\<lambda>v. success (Lit ''Navigated forward successfully''))
     else if toolName = str ''hover'' then
       reading args ''selector''
         (if \<not> truthy (getProp args ''selector'') then failure ''Selector is required''
          else await (hover (getProp args ''selector''))
                 (\<lambda>v. success (Lit ''Hover completed successfully'')))
     else if toolName = str ''dragAndDrop'' then
       reading args ''sourceSelector''
         (if \<not> truthy (getProp args ''sourceSelector'') \<or> \<not> truthy (getProp args ''targetSelector'')
          then failure ''Source and target selectors are required''
          else await (dragAndDrop (getProp args ''sourceSelector'') (getProp args ''targetSelector''))
                 (\<lambda>v. success (Lit ''Drag and drop completed successfully'')))
     else if toolName = str ''selectOption'' then
       reading args ''selector''
         (if \<not> truthy (getProp args ''selector'') \<or> \<not> truthy (getProp args ''values'')
          then failure ''Selector and values are required''
          else await (selectOption (getProp args ''selector'') (getProp args ''values''))
                 (\<lambda>v. success (Lit ''Option selected successfully'')))
     else if toolName = str ''pressKey'' then
       reading args ''key''
         (if \<not> truthy (getProp args ''key'') then failure ''Key is required''
          else await (pressKey (getProp args ''key'')) (\<lambda>v. success (Lit ''Key pressed successfully'')))
     else if toolName = str ''waitForText'' then
       reading args ''text''
         (if \<not> truthy (getProp args ''text'') then failure ''Text is required''
          else await (waitForText (getProp args ''text'') (getProp args ''timeout''))
                 (\<lambda>v. success (Lit ''Text found successfully'')))
     else if toolName = str ''waitForSelector'' then
       reading args ''selector''
         (if \<not> truthy (getProp args ''selector'') then failure ''Selector is required''
          else await (waitForSelector (getProp args ''selector'') (getProp args ''timeout''))
                 (\<lambda>v. success (Lit ''Selector found successfully'')))
     else if toolName = str ''resize'' then
       reading args ''width''
         (if \<not> isNumber (getProp args ''width'') \<or> \<not> isNumber (getProp args ''height'')
          then failure ''Width and height are required''
          else await (resize (numberOf (getProp args ''width'')) (numberOf (getProp args ''height'')))
                 (\<lambda>v. success (Lit ''Browser resized successfully'')))
     else if toolName = str ''handleDialog'' then
       reading args ''accept''
         (if \<not> isBoolean (getProp args ''accept'') then failure ''Accept parameter is required''
          else await (handleDialog (booleanOf (getProp args ''accept'')) (getProp args ''promptText''))
                 (\<lambda>v. success (Lit ''Dialog handler set successfully'')))
     else if toolName = str ''getConsoleMessages'' then
       await getConsoleMessages (\<lambda>messages. success (Stringify2 messages))
     else if toolName = str ''getNetworkRequests'' then
       await getNetworkRequests (\<lambda>requests. success (Stringify2 requests))
     else if toolName = str ''uploadFiles'' then
       reading args ''selector''
         (if \<not> truthy (getProp args ''selector'') \<or> \<not> truthy (getProp args ''filePaths'')
          then failure ''Selector and file paths are required''
          else await (uploadFiles (getProp args ''selector'') (getProp args ''filePaths''))
                 (\<lambda>v. success (Lit ''Files uploaded successfully'')))
     else if toolName = str ''evaluateWithReturn'' then
       reading args ''script''
         (if \<not> truthy (getProp args ''script'') \<or> \<not> isString (getProp args ''script'')
          then failure ''JavaScript script is required''
          else await (evaluateWithReturn (getProp args ''script'')) (\<lambda>result.
                 success (if result \<noteq> None then Stringify2 result else Lit ''null'')))
     else if toolName = str ''takeScreenshot'' then
       reading args ''path''
         (if \<not> truthy (getProp args ''path'') then failure ''Path is required''
          else await (takeScreenshot (getProp args ''path'') (getProp args ''fullPage'')
                        (getProp args ''element''))
                 (\<lambda>v. success (Lit ''Screenshot taken successfully'')))
     else if toolName = str ''mouseMove'' then
       reading args ''x''
         (if \<not> isNumber (getProp args ''x'') \<or> \<not> isNumber (getProp args ''y'')
          then failure ''X and Y coordinates are required''
          else await (mouseMove (numberOf (getProp args ''x'')) (numberOf (getProp args ''y'')))
                 (\<lambda>v. success (Lit ''Mouse moved successfully'')))
     else if toolName = str ''mouseClick'' then
       reading args ''x''
         (if \<not> isNumber (getProp args ''x'') \<or> \<not> isNumber (getProp args ''y'')
          then failure ''X and Y coordinates are required''
          else await (mouseClick (numberOf (getProp args ''x'')) (numberOf (getProp args ''y'')))
                 (\<lambda>v. success (Lit ''Mouse clicked successfully'')))
     else if toolName = str ''mouseDrag'' then
       reading args ''startX''
         (if \<not> isNumber (getProp args ''startX'') \<or> \<not> isNumber (getProp args ''startY'')
             \<or> \<not> isNumber (getProp args ''endX'') \<or> \<not> isNumber (getProp args ''endY'')
          then failure ''Start and end coordinates are required''
          else await (mouseDrag (numberOf (getProp args ''startX'')) (numberOf (getProp args ''startY''))
                        (numberOf (getProp args ''endX'')) (numberOf (getProp args ''endY'')))
                 (\<lambda>v. success (Lit ''Mouse drag completed successfully'')))
     else if toolName = str ''closeBrowser'' then
       await closeBrowser (\<lambda>v. success (Lit ''Browser closed successfully''))
     else
       returned \<lparr>content = [Lit (''Unknown tool: '' @ toStringV toolName)], isError = True\<rparr>)"

text \<open>
  The handler registered for \<^verbatim>\<open>callTool\<close>:
  \<^verbatim>\<open>const { name, arguments: args = {} } = request.params\<close>, the switch inside \<^verbatim>\<open>try\<close>, and
  the \<^verbatim>\<open>catch\<close> that turns any thrown error into an error response.
\<close>

definition callTool ::
  "CallToolRequest \<Rightarrow> (PlaywrightController, 'o, jserror + ToolResponse) prog" where
  "callTool request =
     tryCatch
       (toolSwitch (name request) (withDefault (arguments request) (JObj [])))
       (\<lambda>error. returned \<lparr>content = [Lit (errorText error)], isError = True\<rparr>)"

definition listTools :: "('s, 'o, jserror + string list) prog" where
  "listTools = returned tools"

section \<open>The dispatcher (mcp/server.js)\<close>

text \<open>
  What \<^verbatim>\<open>console.log(JSON.stringify(...))\<close> prints, by its structure. An \<^verbatim>\<open>id\<close> that is
  \<open>None\<close> is \<^verbatim>\<open>undefined\<close>, and the key is then absent from the printed line. The
  legacy response is \<^verbatim>\<open>{success: true, message}\<close> or
  \<^verbatim>\<open>{success: false, error: {message, suggestion}}\<close>.
\<close>

datatype rpcResult =
    InitializeResult string "string list" string string
  | ListToolsResult "string list"
  | CallToolResult ToolResponse

datatype legacyResult =
    LegacySuccess blockText
  | LegacyFailure blockText "blockText option"

datatype outputLine =
    JsonRpcResult jsval rpcResult
  | JsonRpcError jsval int string string
  | LegacyResponse legacyResult

type_synonym 'a action = "(PlaywrightController, outputLine, jserror + 'a) prog"

record Server =
  configName :: string
  configVersion :: string
  capabilities :: "string list"
  listToolsHandler :: "string list action option"
  callToolHandler :: "(CallToolRequest \<Rightarrow> ToolResponse action) option"

text \<open>\<^verbatim>\<open>s.includes(t)\<close>\<close>

fun startsWith :: "string \<Rightarrow> string \<Rightarrow> bool" where
  "startsWith s [] = True"
| "startsWith [] (c # cs) = False"
| "startsWith (x # xs) (c # cs) = (x = c \<and> startsWith xs cs)"

fun includesText :: "string \<Rightarrow> string \<Rightarrow> bool" where
  "includesText [] t = (t = [])"
| "includesText (x # xs) t = (startsWith (x # xs) t \<or> includesText xs t)"

definition quotedId :: string where
  "quotedId = [CHR 0x22, CHR ''i'', CHR ''d'', CHR 0x22]"

definition emitCallResult :: "jsval \<Rightarrow> ToolResponse \<Rightarrow> unit action" where
  "emitCallResult ident response = Emit (JsonRpcResult ident (CallToolResult response)) (returned ())"

text \<open>The legacy branch reads \<^verbatim>\<open>response.content[0].text\<close> and \<^verbatim>\<open>response.content[1]?.text\<close>.\<close>

definition emitLegacy :: "ToolResponse \<Rightarrow> unit action" where
  "emitLegacy response =
     (case content response of
        [] \<Rightarrow> throw (TypeError (cannotRead ''undefined'' ''text''))
      | first # others \<Rightarrow>
          Emit (LegacyResponse
                  (if isError response
                   then LegacyFailure first (case others of [] \<Rightarrow> None | second # rest \<Rightarrow> Some second)
                   else LegacySuccess first))
            (returned ()))"

text \<open>
  \<^verbatim>\<open>handleInput\<close>. \<^verbatim>\<open>JSON.parse\<close> is a parameter: it returns the parsed value or the
  message of the \<open>SyntaxError\<close> it throws. The \<^verbatim>\<open>catch\<close> block parses the input a second
  time when the input contains the text \<^verbatim>\<open>"id"\<close>; what that throws is not caught.
\<close>

definition dispatch :: "Server \<Rightarrow> json \<Rightarrow> unit action" where
  "dispatch srv msg =
     (if msg = JNull then throw (TypeError (cannotRead ''null'' ''method''))
      else if getProp msg ''method'' = str ''initialize'' then
        Emit (JsonRpcResult (getProp msg ''id'')
                (InitializeResult ''2024-11-05'' (capabilities srv) (configName srv) (configVersion srv)))
          (returned ())
      else if getProp msg ''method'' = str ''notifications/initialized'' then returned ()
      else if getProp msg ''method'' = str ''tools/list'' then
        (case listToolsHandler srv of
           None \<Rightarrow> throw (Error ''No list tools handler registered'')
         | Some handler \<Rightarrow>
             await handler (\<lambda>response.
               Emit (JsonRpcResult (getProp msg ''id'') (ListToolsResult response)) (returned ())))
      else if getProp msg ''method'' = str ''tools/call'' then
        (case callToolHandler srv of
           None \<Rightarrow> throw (Error ''No call tool handler registered'')
         | Some handler \<Rightarrow>
            (case getProp msg ''params'' of
               None \<Rightarrow> throw (TypeError (cannotRead ''undefined'' ''name''))
             | Some params \<Rightarrow>
                 if params = JNull then throw (TypeError (cannotRead ''null'' ''name''))
                 else await (handler \<lparr>name = getProp params ''name'',
                                        arguments = getProp params ''arguments''\<rparr>)
                        (emitCallResult (getProp msg ''id''))))
      else if truthy (getProp msg ''command'') then
        (case callToolHandler srv of
           None \<Rightarrow> throw (Error ''No call tool handler registered'')
         | Some handler \<Rightarrow>
             await (handler \<lparr>name = getProp msg ''command'',
                               arguments = getProp msg ''arguments''\<rparr>)
               emitLegacy)
      else returned ())"

definition handleInput :: "(string \<Rightarrow> string + json) \<Rightarrow> Server \<Rightarrow> string \<Rightarrow> unit action" where
  "handleInput JSON_parse srv input =
     tryCatch
       (case JSON_parse input of
          Inl m \<Rightarrow> throw (SyntaxError m)
        | Inr msg \<Rightarrow> dispatch srv msg)
       (\<lambda>error.
          if includesText input quotedId then
            (case JSON_parse input of
               Inl m \<Rightarrow> throw (SyntaxError m)
             | Inr msg \<Rightarrow>
                 if msg = JNull then throw (TypeError (cannotRead ''null'' ''id''))
                 else Emit (JsonRpcError (getProp msg ''id'') (- 32603) (message error)
                              ''Check input format'')
                        (returned ()))
          else
            Emit (JsonRpcError (Some JNull) (- 32603) (message error) ''Check input format'')
              (returned ()))"

text \<open>The server that server.js builds, with both handlers registered.\<close>

definition server :: Server where
  "server =
     \<lparr>configName = ''playmcp-browser'', configVersion = ''1.0.0'', capabilities = tools,
      listToolsHandler = Some listTools, callToolHandler = Some callTool\<rparr>"

subsection \<open>A JSON parser\<close>

text \<open>
  A parser to run the dispatcher on concrete lines: JSON with integer numbers and the
  two-character escapes. Fractions, exponents and \<^verbatim>\<open>\u\<close> escapes are not covered and are
  reported as errors; the engine's wording of the \<open>SyntaxError\<close> message is not
  reproduced. Theorems that hold for every parser take \<^verbatim>\<open>JSON.parse\<close> as a parameter.
\<close>

datatype token =
    LBrace | RBrace | LBrack | RBrack | Colon | Comma
  | TStr string | TNum int | TTrue | TFalse | TNull

datatype lexState =
    Idle
  | InStr string
  | InEsc string
  | InNum string
  | InWord string

definition isSpace :: "char \<Rightarrow> bool" where
  "isSpace c = (c = CHR '' '' \<or> c = CHR 0x09 \<or> c = CHR 0x0A \<or> c = CHR 0x0D)"

definition isDigit :: "char \<Rightarrow> bool" where
  "isDigit c = (c \<in> set ''0123456789'')"

definition punct :: "char \<Rightarrow> token option" where
  "punct c =
     (if c = CHR ''{'' then Some LBrace else if c = CHR ''}'' then Some RBrace
      else if c = CHR ''['' then Some LBrack else if c = CHR '']'' then Some RBrack
      else if c = CHR '':'' then Some Colon else if c = CHR '','' then Some Comma
      else None)"

definition unescape :: "char \<Rightarrow> char option" where
  "unescape c =
     (if c = CHR 0x22 then Some (CHR 0x22) else if c = CHR 0x5C then Some (CHR 0x5C)
      else if c = CHR ''/'' then Some (CHR ''/'') else if c = CHR ''b'' then Some (CHR 0x08)
      else if c = CHR ''f'' then Some (CHR 0x0C) else if c = CHR ''n'' then Some (CHR 0x0A)
      else if c = CHR ''r'' then Some (CHR 0x0D) else if c = CHR ''t'' then Some (CHR 0x09)
      else None)"

fun digitsValue :: "nat \<Rightarrow> string \<Rightarrow> nat" where
  "digitsValue acc [] = acc"
| "digitsValue acc (c # cs) = digitsValue (10 * acc + (of_char c - 48)) cs"

text \<open>The token of a finished number (\<^verbatim>\<open>-?(0|[1-9][0-9]*)\<close>) or word.\<close>

definition numberToken :: "string \<Rightarrow> token option" where
  "numberToken ds =
     (let body = (if startsWith ds ''-'' then tl ds else ds) in
      if body = [] \<or> (length body > 1 \<and> hd body = CHR ''0'') then None
      else Some (TNum (if startsWith ds ''-'' then - int (digitsValue 0 body)
                       else int (digitsValue 0 body))))"

definition wordToken :: "string \<Rightarrow> token option" where
  "wordToken w =
     (if w = ''true'' then Some TTrue else if w = ''false'' then Some TFalse
      else if w = ''null'' then Some TNull else None)"

definition consTok :: "token option \<Rightarrow> token list option \<Rightarrow> token list option" where
  "consTok t ts = (case (t, ts) of (Some x, Some xs) \<Rightarrow> Some (x # xs) | other \<Rightarrow> None)"

fun lexer :: "lexState \<Rightarrow> string \<Rightarrow> token list option" where
  "lexer Idle [] = Some []"
| "lexer (InStr acc) [] = None"
| "lexer (InEsc acc) [] = None"
| "lexer (InNum ds) [] = consTok (numberToken ds) (Some [])"
| "lexer (InWord w) [] = consTok (wordToken w) (Some [])"
| "lexer Idle (c # cs) =
     (if isSpace c then lexer Idle cs
      else if punct c \<noteq> None then consTok (punct c) (lexer Idle cs)
      else if c = CHR 0x22 then lexer (InStr []) cs
      else if c = CHR ''-'' \<or> isDigit c then lexer (InNum [c]) cs
      else if c \<in> set ''truefalsn'' then lexer (InWord [c]) cs
      else None)"
| "lexer (InStr acc) (c # cs) =
     (if c = CHR 0x22 then consTok (Some (TStr acc)) (lexer Idle cs)
      else if c = CHR 0x5C then lexer (InEsc acc) cs
      else if (of_char c :: nat) < 32 then None
      else lexer (InStr (acc @ [c])) cs)"
| "lexer (InEsc acc) (c # cs) =
     (case unescape c of None \<Rightarrow> None | Some x \<Rightarrow> lexer (InStr (acc @ [x])) cs)"
| "lexer (InNum ds) (c # cs) =
     (if isDigit c then lexer (InNum (ds @ [c])) cs
      else if isSpace c then consTok (numberToken ds) (lexer Idle cs)
      else if punct c \<noteq> None then consTok (numberToken ds) (consTok (punct c) (lexer Idle cs))
      else None)"
| "lexer (InWord w) (c # cs) =
     (if c \<in> set ''truefalsn'' then lexer (InWord (w @ [c])) cs
      else if isSpace c then consTok (wordToken w) (lexer Idle cs)
      else if punct c \<noteq> None then consTok (wordToken w) (consTok (punct c) (lexer Idle cs))
      else None)"

text \<open>
  The parser keeps the open arrays and objects on a stack. \<open>KeyF\<close> is an object whose
  next value belongs to the key it holds.
\<close>

datatype frame =
    ArrF "json list"
  | ObjF "(string \<times> json) list"
  | KeyF "(string \<times> json) list" string

datatype phase =
    WantValue
  | WantValueOrEnd
  | WantKeyOrEnd
  | WantKey
  | WantColon string
  | AfterItem
  | Finished json

fun placed :: "frame list \<Rightarrow> json \<Rightarrow> (frame list \<times> phase) option" where
  "placed [] v = Some ([], Finished v)"
| "placed (ArrF xs # st) v = Some (ArrF (xs @ [v]) # st, AfterItem)"
| "placed (KeyF kvs k # st) v = Some (ObjF (kvs @ [(k, v)]) # st, AfterItem)"
| "placed (ObjF kvs # st) v = None"

fun scalar :: "token \<Rightarrow> json option" where
  "scalar (TStr s) = Some (JStr s)"
| "scalar (TNum n) = Some (JNum n)"
| "scalar TTrue = Some (JBool True)"
| "scalar TFalse = Some (JBool False)"
| "scalar TNull = Some JNull"
| "scalar t = None"

text \<open>One token: the new stack and phase, or \<open>None\<close> for a syntax error.\<close>

fun shiftValue :: "frame list \<Rightarrow> token \<Rightarrow> (frame list \<times> phase) option" where
  "shiftValue st LBrack = Some (ArrF [] # st, WantValueOrEnd)"
| "shiftValue st LBrace = Some (ObjF [] # st, WantKeyOrEnd)"
| "shiftValue st t = (case scalar t of None \<Rightarrow> None | Some v \<Rightarrow> placed st v)"

fun shift :: "frame list \<Rightarrow> phase \<Rightarrow> token \<Rightarrow> (frame list \<times> phase) option" where
  "shift st (Finished v) t = None"
| "shift st WantValue t = shiftValue st t"
| "shift (ArrF xs # st) WantValueOrEnd RBrack = placed st (JArr xs)"
| "shift st WantValueOrEnd t = shiftValue st t"
| "shift (ObjF kvs # st) WantKeyOrEnd RBrace = placed st (JObj kvs)"
| "shift st WantKeyOrEnd (TStr k) = Some (st, WantColon k)"
| "shift st WantKeyOrEnd t = None"
| "shift st WantKey (TStr k) = Some (st, WantColon k)"
| "shift st WantKey t = None"
| "shift (ObjF kvs # st) (WantColon k) Colon = Some (KeyF kvs k # st, WantValue)"
| "shift st (WantColon k) t = None"
| "shift (ArrF xs # st) AfterItem Comma = Some (ArrF xs # st, WantValue)"
| "shift (ObjF kvs # st) AfterItem Comma = Some (ObjF kvs # st, WantKey)"
| "shift (ArrF xs # st) AfterItem RBrack = placed st (JArr xs)"
| "shift (ObjF kvs # st) AfterItem RBrace = placed st (JObj kvs)"
| "shift st AfterItem t = None"

fun parseTokens :: "frame list \<Rightarrow> phase \<Rightarrow> token list \<Rightarrow> json option" where
  "parseTokens st (Finished v) [] = Some v"
| "parseTokens st ph [] = None"
| "parseTokens st ph (t # ts) =
     (case shift st ph t of None \<Rightarrow> None | Some (st', ph') \<Rightarrow> parseTokens st' ph' ts)"

definition parseJson :: "string \<Rightarrow> string + json" where
  "parseJson s =
     (case lexer Idle s of
        None \<Rightarrow> Inl ''Unexpected token''
      | Some ts \<Rightarrow>
         (case parseTokens [] WantValue ts of
            None \<Rightarrow> Inl ''Unexpected token''
          | Some v \<Rightarrow> Inr v))"

section \<open>The standard-input loop (Server.connect)\<close>

text \<open>\<^verbatim>\<open>buffer.split('\n')\<close> and the test \<^verbatim>\<open>line.trim()\<close>, on the whitespace of ASCII.\<close>

fun splitLines :: "string \<Rightarrow> string list" where
  "splitLines [] = [[]]"
| "splitLines (c # cs) =
     (if c = CHR 0x0A then [] # splitLines cs
      else (case splitLines cs of [] \<Rightarrow> [[c]] | l # ls \<Rightarrow> (c # l) # ls))"

definition trimsAway :: "char \<Rightarrow> bool" where
  "trimsAway c =
     (c = CHR '' '' \<or> c = CHR 0x09 \<or> c = CHR 0x0A \<or> c = CHR 0x0B \<or> c = CHR 0x0C \<or> c = CHR 0x0D)"

definition blank :: "string \<Rightarrow> bool" where
  "blank line = list_all trimsAway line"

text \<open>
  The process between two turns of the event loop: the controller, the lines printed so
  far, the input buffer, the started functions that are suspended (each at its \<open>Yield\<close>,
  \<open>Create\<close> or \<open>Call\<close>), and the rejections of \<^verbatim>\<open>handleInput\<close> promises, which nothing
  handles. \<open>world\<close> is what the driver's synchronous calls answer during one turn.
\<close>

record world =
  connected :: "handle \<Rightarrow> bool"
  syncAnswer :: "syncop \<Rightarrow> jsval"

record process =
  controller :: PlaywrightController
  stdout :: "outputLine list"
  buffer :: string
  inFlight :: "unit action list"
  unhandled :: "jserror list"

text \<open>Run a function up to its next suspension point or to its end.\<close>

primrec advance ::
  "('s, 'o, 'a) prog \<Rightarrow> world \<Rightarrow> 's \<Rightarrow> 's \<times> 'o list \<times> ('a + ('s, 'o, 'a) prog)" where
  "advance (Return a) w s = (s, [], Inl a)"
| "advance (Yield p) w s = (s, [], Inr (Yield p))"
| "advance (Get k) w s = advance (k s) w s"
| "advance (Put s' p) w s = advance p w s'"
| "advance (Emit x p) w s = (case advance p w s of (s', out, r) \<Rightarrow> (s', x # out, r))"
| "advance (Ask h k) w s = advance (k (connected w h)) w s"
| "advance (Sync q k) w s = advance (k (syncAnswer w q)) w s"
| "advance (Create c k) w s = (s, [], Inr (Create c k))"
| "advance (Call c k) w s = (s, [], Inr (Call c k))"

definition turn :: "world \<Rightarrow> unit action \<Rightarrow> process \<Rightarrow> process" where
  "turn w p \<sigma> =
     (case advance p w (controller \<sigma>) of
        (c, out, Inl (Inl err)) \<Rightarrow>
          \<sigma>\<lparr>controller := c, stdout := stdout \<sigma> @ out, unhandled := unhandled \<sigma> @ [err]\<rparr>
      | (c, out, Inl (Inr u)) \<Rightarrow> \<sigma>\<lparr>controller := c, stdout := stdout \<sigma> @ out\<rparr>
      | (c, out, Inr q) \<Rightarrow>
          \<sigma>\<lparr>controller := c, stdout := stdout \<sigma> @ out, inFlight := inFlight \<sigma> @ [q]\<rparr>)"

text \<open>
  The \<^verbatim>\<open>'data'\<close> listener of \<^verbatim>\<open>connect\<close>: the loop calls \<^verbatim>\<open>this.handleInput(line)\<close> for
  each line that is not blank and does not await the promise it returns.
\<close>

definition onData ::
  "(string \<Rightarrow> string + json) \<Rightarrow> Server \<Rightarrow> world \<Rightarrow> string \<Rightarrow> process \<Rightarrow> process" where
  "onData JSON_parse srv w chunk \<sigma> =
     (let b = buffer \<sigma> @ chunk in
      if CHR 0x0A \<notin> set b then \<sigma>\<lparr>buffer := b\<rparr>
      else
        foldl (\<lambda>\<sigma>' line. if blank line then \<sigma>' else turn w (handleInput JSON_parse srv line) \<sigma>')
          (\<sigma>\<lparr>buffer := last (splitLines b)\<rparr>)
          (butlast (splitLines b)))"

text \<open>
  A suspended function resumes when what it awaits settles. The model lets any
  suspended function resume in any later turn; the engine resumes those at a \<open>Yield\<close>
  before it delivers anything else.
\<close>

datatype settlement =
    CreateSettled "handle settled"
  | CallSettled "jsval settled"
  | Tick

fun resume :: "('s, 'o, 'a) prog \<Rightarrow> settlement \<Rightarrow> ('s, 'o, 'a) prog option" where
  "resume (Create c k) (CreateSettled r) = Some (k r)"
| "resume (Call c k) (CallSettled r) = Some (k r)"
| "resume (Yield p) Tick = Some p"
| "resume p x = None"

definition settle :: "world \<Rightarrow> nat \<Rightarrow> settlement \<Rightarrow> process \<Rightarrow> process" where
  "settle w i x \<sigma> =
     (if i < length (inFlight \<sigma>) then
        (case resume (inFlight \<sigma> ! i) x of
           None \<Rightarrow> \<sigma>
         | Some p \<Rightarrow> turn w p (\<sigma>\<lparr>inFlight := take i (inFlight \<sigma>) @ drop (Suc i) (inFlight \<sigma>)\<rparr>))
      else \<sigma>)"

text \<open>The driver call that a suspended function waits for, if any.\<close>

fun awaited :: "('s, 'o, 'a) prog \<Rightarrow> pagecall option" where
  "awaited (Call c k) = Some c"
| "awaited p = None"

definition startProcess :: process where
  "startProcess =
     \<lparr>controller = playwrightController, stdout = [], buffer = [], inFlight = [], unhandled = []\<rparr>"

section \<open>The insights of a deep scan (services/enhanced-targeted-scanner.ts)\<close>

record AiInsights =
  toolOverview :: json
  teacherBenefits :: "json list"
  commonUseCases :: "json list"
  setupComplexity :: json
  bestFeatures :: "json list"



fun first :: "json \<Rightarrow> jsval" where
  "first (JArr xs) = (case xs of [] \<Rightarrow> None | x # rest \<Rightarrow> Some x)"
| "first (JStr s) = (case s of [] \<Rightarrow> None | c # rest \<Rightarrow> Some (JStr [c]))"
| "first (JObj kvs) = getProp (JObj kvs) ''0''"
| "first v = None"








text \<open>
  \<^verbatim>\<open>performDeepTargetedScan\<close>. Everything of the result but \<^verbatim>\<open>aiInsights\<close> is \<open>rest\<close>. The
  page scans (phase 1), the enhancement of the resources (phase 3) and the final
  bookkeeping catch their own errors and do not assign \<^verbatim>\<open>aiInsights\<close>; they are
  parameters that act on \<open>rest\<close>.
\<close>

record 'r DeepScanResult =
  aiInsights :: AiInsights
  rest :: 'r


section \<open>Sample environments and states\<close>

text \<open>
  A driver in which every call succeeds (a creation returns a fresh handle), one in
  which every awaited call is rejected, and one whose browser is no longer connected.
\<close>

definition obligingDriver :: env where
  "obligingDriver =
     \<lparr>isConnected = (\<lambda>n h. True), synced = (\<lambda>n q. None),
      created = (\<lambda>n c. Fulfilled (100 + n)), called = (\<lambda>n c. Fulfilled None)\<rparr>"

definition failingDriver :: env where
  "failingDriver =
     \<lparr>isConnected = (\<lambda>n h. True), synced = (\<lambda>n q. None),
      created = (\<lambda>n c. Rejected ''Executable not found''),
      called = (\<lambda>n c. Rejected ''Target closed'')\<rparr>"

definition lostDriver :: env where
  "lostDriver =
     \<lparr>isConnected = (\<lambda>n h. False), synced = (\<lambda>n q. None),
      created = (\<lambda>n c. Fulfilled (100 + n)), called = (\<lambda>n c. Fulfilled None)\<rparr>"

definition openSession :: PlaywrightController where
  "openSession =
     \<lparr>state = \<lparr>browser = Some 1, browserContext = Some 2, page = Some 3, debug = JBool False\<rparr>,
      currentMousePosition = (40, 50)\<rparr>"

definition liveWorld :: world where
  "liveWorld = \<lparr>connected = (\<lambda>h. True), syncAnswer = (\<lambda>q. None)\<rparr>"

text \<open>Sample input lines.\<close>

definition unknownToolLine :: string where
  \<open>unknownToolLine =
     ''{"jsonrpc":"2.0","id":7,"method":"tools/call","params":{"name":"teleport","arguments":{}}}''\<close>


definition legacyKeyLine :: string where
  \<open>legacyKeyLine = ''{"command":"pressKey","arguments":{"key":"Enter"}}''\<close>

definition legacyClickLine :: string where
  \<open>legacyClickLine = ''{"command":"click"}''\<close>

definition legacyTitleLine :: string where
  \<open>legacyTitleLine = ''{"command":"getPageTitle"}''\<close>

definition toolsListLine :: string where
  \<open>toolsListLine = ''{"jsonrpc":"2.0","id":1,"method":"tools/list"}''\<close>

definition noMethodLine :: string where
  \<open>noMethodLine = ''{"jsonrpc":"2.0","id":5}''\<close>

definition notJsonLine :: string where
  \<open>notJsonLine = ''open the browser''\<close>

definition truncatedLine :: string where
  \<open>truncatedLine = ''{"jsonrpc":"2.0","id":6,"method":"tools/call","params":{"name":"navi''\<close>

definition waitLine :: string where
  \<open>waitLine =
     ''{"jsonrpc":"2.0","id":1,"method":"tools/call","params":{"name":"waitForSelector","arguments":{"selector":"#late"}}}''\<close>

definition titleLine :: string where
  \<open>titleLine =
     ''{"jsonrpc":"2.0","id":2,"method":"tools/call","params":{"name":"getPageTitle","arguments":{}}}''\<close>

text \<open>
  The process after one chunk that holds \<open>waitLine\<close> and \<open>titleLine\<close>, each ended by a
  newline, has arrived in an open session.
\<close>

definition afterTwoLines :: process where
  "afterTwoLines =
     onData parseJson server liveWorld (waitLine @ [CHR 0x0A] @ titleLine @ [CHR 0x0A])
       (startProcess\<lparr>controller := openSession\<rparr>)"




text \<open>Every response that a handler can return holds exactly one content block.\<close>

definition oneBlock :: "ToolResponse action \<Rightarrow> bool" where
  "oneBlock p = (\<forall>e n s r. fst (run p e n s) = Inr r \<longrightarrow> length (content r) = 1)"

section \<open>Running composed functions\<close>

lemma run_bind:
  "run (bind p f) e n s =
     (case run p e n s of (a, s', tr, n') \<Rightarrow>
        (case run (f a) e n' s' of (b, s'', tr', n'') \<Rightarrow> (b, s'', tr @ tr', n'')))"
  by (induction p arbitrary: e n s) (auto split: prod.splits)

lemmas facade_defs =
  throw_def andThen_def tryCatch_def await_def awaitCreate_def awaitCall_def returned_def
  modify_def isInitialized_def facade_def facadeP_def onPageOpt_def onPage_def onPageSync_def
  closeIfSet_def

lemmas sample_defs =
  obligingDriver_def failingDriver_def lostDriver_def openSession_def playwrightController_def
  emptyState_def

lemma run_await:
  "run (await p f) e n s =
     (case run p e n s of
        (Inl err, s', tr, n') \<Rightarrow> (Inl err, s', tr, n')
      | (Inr v, s', tr, n') \<Rightarrow>
          (case run (f v) e n' s' of (b, s'', tr', n'') \<Rightarrow> (b, s'', tr @ tr', n'')))"
  by (simp add: await_def run_bind split: prod.splits sum.splits)

lemma run_tryCatch:
  "run (tryCatch p h) e n s =
     (case run p e n s of
        (Inl err, s', tr, n') \<Rightarrow>
          (case run (h err) e n' s' of (b, s'', tr', n'') \<Rightarrow> (b, s'', tr @ tr', n''))
      | (Inr v, s', tr, n') \<Rightarrow> (Inr v, s', tr, n'))"
  by (simp add: tryCatch_def run_bind split: prod.splits sum.splits)

lemmas parser_defs =
  parseJson_def isSpace_def isDigit_def punct_def unescape_def consTok_def numberToken_def
  wordToken_def

section \<open>The facade without a session\<close>

text \<open>
  C3, as the code has it. When \<^verbatim>\<open>isInitialized()\<close> is false, every guarded operation fails
  at once with its own \<open>BrowserError\<close> (message and suggestion of the operation; the
  \<^verbatim>\<open>Error('Browser not initialized')\<close> that the guard throws is caught inside the operation
  and replaced), makes no driver call and prints nothing, and leaves the controller
  (session state and mouse position) as it was. So do \<^verbatim>\<open>getPageTitle\<close>, \<^verbatim>\<open>navigate\<close> and
  \<^verbatim>\<open>moveMouse\<close>.
\<close>

theorem C3_guard_fails_with_own_error:
  assumes "\<not> fst (run (isInitialized Return :: (PlaywrightController, outputLine, bool) prog) e n c)"
  shows "fst (run (facade msg hint body :: 'a action) e n c) = Inl (BrowserError msg hint)
       \<and> fst (snd (run (facade msg hint body :: 'a action) e n c)) = c
       \<and> fst (snd (snd (run (facade msg hint body :: 'a action) e n c))) = []
       \<and> fst (run (facadeP msg hint body :: 'a action) e n c) = Inl (BrowserError msg hint)
       \<and> fst (snd (run (facadeP msg hint body :: 'a action) e n c)) = c
       \<and> fst (snd (snd (run (facadeP msg hint body :: 'a action) e n c))) = []
       \<and> fst (run (getPageTitle :: jsval action) e n c)
           = Inl (BrowserError ''Failed to get page title'' ''Check if the page is loaded'')
       \<and> fst (snd (run (getPageTitle :: jsval action) e n c)) = c
       \<and> fst (run (navigate url :: jsval action) e n c)
           = Inl (BrowserError ''Failed to navigate'' ''Check if the URL is valid and accessible'')
       \<and> fst (snd (run (navigate url :: jsval action) e n c)) = c
       \<and> fst (run (moveMouse x y :: jsval action) e n c)
           = Inl (BrowserError ''Failed to move mouse'' ''Check if coordinates are within viewport'')
       \<and> fst (snd (run (moveMouse x y :: jsval action) e n c)) = c"
  using assms
  by (auto simp add: facade_defs getPageTitle_def navigate_def moveMouse_def split: option.splits)

theorem C3_guard_fails_with_own_error_witness:
  "\<not> fst (run (isInitialized Return :: (PlaywrightController, outputLine, bool) prog)
            lostDriver 0 openSession)
   \<and> fst (run (getPageTitle :: jsval action) lostDriver 0 openSession)
       = Inl (BrowserError ''Failed to get page title'' ''Check if the page is loaded'')
   \<and> fst (snd (run (moveMouse 7 9 :: jsval action) lostDriver 0 openSession)) = openSession"
proof -
  have h: "\<not> fst (run (isInitialized Return :: (PlaywrightController, outputLine, bool) prog)
                   lostDriver 0 openSession)"
    by (simp add: isInitialized_def sample_defs)
  show ?thesis
    using h C3_guard_fails_with_own_error
      [OF h, of "[]" "[]" "Return (Inr None) :: jsval action" None 7 9]
    by blast
qed

text \<open>
  C3 as stated fails: before any \<^verbatim>\<open>openBrowser\<close>, \<^verbatim>\<open>getPageTitle\<close> does not return the error
  \<^verbatim>\<open>Browser not initialized\<close> but \<^verbatim>\<open>Failed to get page title\<close>.
\<close>

theorem C3_counterexample:
  "fst (run (getPageTitle :: jsval action) obligingDriver 0 playwrightController)
     = Inl (BrowserError ''Failed to get page title'' ''Check if the page is loaded'')
   \<and> fst (run (getPageTitle :: jsval action) obligingDriver 0 playwrightController)
     \<noteq> Inl (Error ''Browser not initialized'')"
  by (simp add: getPageTitle_def facade_defs sample_defs)

section \<open>Closing the browser\<close>

text \<open>
  C4, as the code has it. With a full session, \<^verbatim>\<open>closeBrowser\<close> closes the page, then the
  context, then the browser. When all three succeed it resets the session state to empty
  and returns. At the first close that fails it stops: the closes after it are not
  attempted, the session state is left as it was, and \<open>BrowserError\<close>
  \<^verbatim>\<open>Failed to close browser\<close> is thrown. With an empty session it calls nothing and succeeds.
\<close>

theorem C4_closeBrowser_order_and_failure:
  assumes "state c = \<lparr>browser = Some b, browserContext = Some x, page = Some p, debug = d\<rparr>"
  shows "run (closeBrowser :: jsval action) e n c =
     (case called e n (PageClose p) of
        Rejected m \<Rightarrow>
          (Inl (BrowserError ''Failed to close browser''
                  ''The browser might have already been closed''),
           c, [Called (PageClose p)], n + 1)
      | Fulfilled v \<Rightarrow>
     (case called e (n + 1) (ContextClose x) of
        Rejected m \<Rightarrow>
          (Inl (BrowserError ''Failed to close browser''
                  ''The browser might have already been closed''),
           c, [Called (PageClose p), Called (ContextClose x)], n + 2)
      | Fulfilled v \<Rightarrow>
     (case called e (n + 2) (BrowserClose b) of
        Rejected m \<Rightarrow>
          (Inl (BrowserError ''Failed to close browser''
                  ''The browser might have already been closed''),
           c, [Called (PageClose p), Called (ContextClose x), Called (BrowserClose b)], n + 3)
      | Fulfilled v \<Rightarrow>
          (Inr None, c\<lparr>state := emptyState\<rparr>,
           [Called (PageClose p), Called (ContextClose x), Called (BrowserClose b)], n + 3))))
     \<and> run (closeBrowser :: jsval action) e n (c\<lparr>state := emptyState\<rparr>)
         = (Inr None, c\<lparr>state := emptyState\<rparr>, [], n)"
  using assms by (simp add: closeBrowser_def facade_defs emptyState_def split: settled.splits)

theorem C4_closeBrowser_order_and_failure_witness:
  "state openSession
     = \<lparr>browser = Some 1, browserContext = Some 2, page = Some 3, debug = JBool False\<rparr>
   \<and> run (closeBrowser :: jsval action) obligingDriver 0 openSession
     = (Inr None, openSession\<lparr>state := emptyState\<rparr>,
        [Called (PageClose 3), Called (ContextClose 2), Called (BrowserClose 1)], 3)"
proof -
  have h: "state openSession
     = \<lparr>browser = Some 1, browserContext = Some 2, page = Some 3, debug = JBool False\<rparr>"
    by (simp add: openSession_def)
  show ?thesis
    using h C4_closeBrowser_order_and_failure [OF h, of obligingDriver 0]
    by (simp add: obligingDriver_def)
qed

text \<open>
  C4 as stated fails: when closing the page fails, \<^verbatim>\<open>closeBrowser\<close> throws instead of
  swallowing the error, never closes the context and the browser, and leaves the session
  as it was instead of resetting it.
\<close>

theorem C4_counterexample:
  "run (closeBrowser :: jsval action) failingDriver 0 openSession
     = (Inl (BrowserError ''Failed to close browser''
               ''The browser might have already been closed''),
        openSession, [Called (PageClose 3)], 1)
   \<and> state openSession \<noteq> emptyState"
  by (simp add: closeBrowser_def facade_defs sample_defs)

section \<open>Opening the browser twice\<close>

text \<open>
  C6. When the controller holds a browser that reports itself connected, \<^verbatim>\<open>openBrowser\<close>
  returns without an error and without any call to the driver; browser, context and page
  are unchanged (only the debug flag is set from the argument). And when a first
  \<^verbatim>\<open>openBrowser\<close> has launched browser, context and page and the browser is connected at
  the second call, two calls in succession launch exactly once.
\<close>

theorem C6_openBrowser_idempotent:
  assumes "browser (state c) = Some b" and "isConnected e n b"
  shows "run (openBrowser headless dbg :: jsval action) e n c
           = (Inr None, c\<lparr>state := (state c)\<lparr>debug := withDefault dbg (JBool False)\<rparr>\<rparr>, [], Suc n)
       \<and> (created e k (Launch (withDefault headless (JBool False))) = Fulfilled b'
            \<and> created e (k + 1) (NewContext b') = Fulfilled x'
            \<and> created e (k + 2) (NewPage x') = Fulfilled p'
            \<and> isConnected e (k + 3) b'
          \<longrightarrow> run (andThen (openBrowser headless dbg) (\<lambda>v. openBrowser headless2 dbg2) :: jsval action)
                 e k playwrightController
              = (Inr None,
                 playwrightController\<lparr>state :=
                   \<lparr>browser = Some b', browserContext = Some x', page = Some p',
                    debug = withDefault dbg2 (JBool False)\<rparr>\<rparr>,
                 [Created (Launch (withDefault headless (JBool False))),
                  Created (NewContext b'), Created (NewPage x')],
                 k + 4))"
  using assms
  by (simp add: openBrowser_def launchBrowser_def newContextStep_def newPageStep_def
        facade_defs run_bind playwrightController_def emptyState_def eval_nat_numeral)

theorem C6_openBrowser_idempotent_witness:
  "browser (state openSession) = Some 1 \<and> isConnected obligingDriver 0 1
   \<and> run (openBrowser None None :: jsval action) obligingDriver 0 openSession
       = (Inr None, openSession, [], 1)
   \<and> run (andThen (openBrowser None None) (\<lambda>v. openBrowser None None) :: jsval action)
         obligingDriver 0 playwrightController
       = (Inr None,
          playwrightController\<lparr>state :=
            \<lparr>browser = Some 100, browserContext = Some 101, page = Some 102,
             debug = JBool False\<rparr>\<rparr>,
          [Created (Launch (JBool False)), Created (NewContext 100), Created (NewPage 101)], 4)"
proof -
  have h1: "browser (state openSession) = Some 1" by (simp add: openSession_def)
  have h2: "isConnected obligingDriver 0 1" by (simp add: obligingDriver_def)
  show ?thesis
    using h1 h2
      C6_openBrowser_idempotent [OF h1 h2, of None None 0 100 101 102 None None]
    by (simp add: obligingDriver_def openSession_def)
qed

section \<open>Unknown tools\<close>

lemma callTool_unknown:
  assumes "toolName \<notin> set tools"
  shows "run (callTool \<lparr>name = str toolName, arguments = a\<rparr> :: ToolResponse action) e n c
           = (Inr \<lparr>content = [Lit (''Unknown tool: '' @ toolName)], isError = True\<rparr>, c, [], n)"
  using assms by (simp add: callTool_def toolSwitch_def tools_def facade_defs str_def)

text \<open>
  C5. A tool-invocation request whose tool name is not a key of the registry is answered
  by the handler with the error payload \<^verbatim>\<open>Unknown tool: <name>\<close>, without any driver call
  and with the controller unchanged; \<^verbatim>\<open>handleInput\<close> prints that payload as the result of
  the request and returns normally.
\<close>

theorem C5_unknown_tool:
  assumes "toolName \<notin> set tools"
  shows "run (callTool \<lparr>name = str toolName, arguments = a\<rparr> :: ToolResponse action) e n c
           = (Inr \<lparr>content = [Lit (''Unknown tool: '' @ toolName)], isError = True\<rparr>, c, [], n)
       \<and> (JSON_parse input = Inr msg \<and> msg \<noteq> JNull
            \<and> getProp msg ''method'' = str ''tools/call''
            \<and> getProp msg ''params'' = Some params \<and> params \<noteq> JNull
            \<and> getProp params ''name'' = str toolName
          \<longrightarrow> run (handleInput JSON_parse server input) e n c
              = (Inr (), c,
                 [Printed (JsonRpcResult (getProp msg ''id'')
                    (CallToolResult
                       \<lparr>content = [Lit (''Unknown tool: '' @ toolName)], isError = True\<rparr>))],
                 n))"
proof -
  have unknown: "\<And>a. run (callTool \<lparr>name = str toolName, arguments = a\<rparr> :: ToolResponse action) e n c
           = (Inr \<lparr>content = [Lit (''Unknown tool: '' @ toolName)], isError = True\<rparr>, c, [], n)"
    using assms by (rule callTool_unknown)
  show ?thesis
    using unknown
    by (auto simp add: handleInput_def dispatch_def server_def emitCallResult_def tryCatch_def
          await_def run_bind returned_def str_def)
qed

theorem C5_unknown_tool_witness:
  "''teleport'' \<notin> set tools
   \<and> run (handleInput parseJson server unknownToolLine) obligingDriver 0 openSession
       = (Inr (), openSession,
          [Printed (JsonRpcResult (Some (JNum 7))
             (CallToolResult \<lparr>content = [Lit ''Unknown tool: teleport''], isError = True\<rparr>))],
          0)"
proof -
  have h: "''teleport'' \<notin> set tools" by (simp add: tools_def)
  have p: "parseJson unknownToolLine
             = Inr (JObj [(''jsonrpc'', JStr ''2.0''), (''id'', JNum 7),
                          (''method'', JStr ''tools/call''),
                          (''params'', JObj [(''name'', JStr ''teleport''), (''arguments'', JObj [])])])"
    by (simp add: unknownToolLine_def parser_defs)
  show ?thesis
    using h p
      C5_unknown_tool [OF h, of None obligingDriver 0 openSession parseJson unknownToolLine
        "JObj [(''jsonrpc'', JStr ''2.0''), (''id'', JNum 7), (''method'', JStr ''tools/call''),
               (''params'', JObj [(''name'', JStr ''teleport''), (''arguments'', JObj [])])]"
        "JObj [(''name'', JStr ''teleport''), (''arguments'', JObj [])]"]
    by (simp add: str_def)
qed

section \<open>Clicking\<close>




section \<open>One content block per response\<close>

lemma oneBlock_if: "oneBlock a \<Longrightarrow> oneBlock b \<Longrightarrow> oneBlock (if c then a else b)"
  by simp

lemma oneBlock_reading: "oneBlock p \<Longrightarrow> oneBlock (reading args k p)"
  by (simp add: reading_def oneBlock_def throw_def)

lemma oneBlock_await:
  assumes "\<And>v. oneBlock (f v)"
  shows "oneBlock (await p f)"
  unfolding oneBlock_def
proof (intro allI impI)
  fix e n s r
  assume a: "fst (run (await p f) e n s) = Inr r"
  obtain a1 s1 t1 n1 where p: "run p e n s = (a1, s1, t1, n1)"
    by (cases "run p e n s") auto
  show "length (content r) = 1"
  proof (cases a1)
    case (Inl err)
    with a p show ?thesis by (simp add: run_await)
  next
    case (Inr v)
    obtain a2 s2 t2 n2 where q: "run (f v) e n1 s1 = (a2, s2, t2, n2)"
      by (cases "run (f v) e n1 s1") auto
    from a p Inr q have "a2 = Inr r" by (simp add: run_await)
    with q have "fst (run (f v) e n1 s1) = Inr r" by simp
    with assms [of v] show ?thesis unfolding oneBlock_def by blast
  qed
qed

lemma oneBlock_success: "oneBlock (success t)"
  by (simp add: oneBlock_def success_def returned_def)

lemma oneBlock_failure: "oneBlock (failure t)"
  by (simp add: oneBlock_def failure_def returned_def)

lemma oneBlock_returned: "length (content r) = 1 \<Longrightarrow> oneBlock (returned r)"
  by (simp add: oneBlock_def returned_def)

lemma oneBlock_joinLines: "oneBlock (joinLines v)"
  by (cases v rule: joinLines.cases) (simp_all add: oneBlock_def success_def returned_def throw_def)

lemma oneBlock_scrollReport: "oneBlock (scrollReport v)"
  by (cases v)
    (auto simp add: oneBlock_def success_def returned_def throw_def split: option.splits)

lemma oneBlock_toolSwitch: "oneBlock (toolSwitch nm args)"
  unfolding toolSwitch_def
  by (intro oneBlock_if oneBlock_reading oneBlock_await oneBlock_success oneBlock_failure
        oneBlock_joinLines oneBlock_scrollReport oneBlock_returned) simp

lemma callTool_oneBlock:
  "\<exists>resp c' tr n' t.
     run (callTool request :: ToolResponse action) e n c = (Inr resp, c', tr, n')
     \<and> content resp = [t]"
proof -
  obtain a s t k where
    r: "run (toolSwitch (name request) (withDefault (arguments request) (JObj []))
              :: ToolResponse action) e n c = (a, s, t, k)"
    by (cases "run (toolSwitch (name request) (withDefault (arguments request) (JObj []))
                 :: ToolResponse action) e n c") auto
  show ?thesis
  proof (cases a)
    case (Inl err)
    with r show ?thesis by (simp add: callTool_def run_tryCatch returned_def)
  next
    case (Inr resp)
    with r have "fst (run (toolSwitch (name request) (withDefault (arguments request) (JObj []))
                        :: ToolResponse action) e n c) = Inr resp"
      by simp
    with oneBlock_toolSwitch have "length (content resp) = 1"
      unfolding oneBlock_def by blast
    then obtain x where "content resp = [x]" by (cases "content resp") auto
    with r Inr show ?thesis by (simp add: callTool_def run_tryCatch)
  qed
qed

section \<open>Legacy commands\<close>

text \<open>
  C8, as the code has it. A line that parses to a value whose method is none of the four
  protocol methods and whose \<^verbatim>\<open>command\<close> is truthy is passed to the same call handler, with
  the command as the tool name and \<^verbatim>\<open>arguments\<close> as its arguments, and a legacy response
  is printed after the handler has finished: \<^verbatim>\<open>success: true\<close> with the text of the
  handler's content block as message, or \<^verbatim>\<open>success: false\<close> with that text as the error
  message. The response of the handler has one content block, so the \<^verbatim>\<open>suggestion\<close> of the
  legacy error, which is read from a second block, is never present.
\<close>

theorem C8_legacy_command:
  assumes "JSON_parse input = Inr msg" and "msg \<noteq> JNull"
    and "getProp msg ''method'' \<noteq> str ''initialize''"
    and "getProp msg ''method'' \<noteq> str ''notifications/initialized''"
    and "getProp msg ''method'' \<noteq> str ''tools/list''"
    and "getProp msg ''method'' \<noteq> str ''tools/call''"
    and "truthy (getProp msg ''command'')"
  shows "\<exists>resp c' tr n' t.
           run (callTool \<lparr>name = getProp msg ''command'', arguments = getProp msg ''arguments''\<rparr>
                  :: ToolResponse action) e n c = (Inr resp, c', tr, n')
         \<and> content resp = [t]
         \<and> run (handleInput JSON_parse server input) e n c
             = (Inr (), c',
                tr @ [Printed (LegacyResponse
                        (if isError resp then LegacyFailure t None else LegacySuccess t))],
                n')"
proof -
  obtain resp c' tr n' t where
    r: "run (callTool \<lparr>name = getProp msg ''command'', arguments = getProp msg ''arguments''\<rparr>
              :: ToolResponse action) e n c = (Inr resp, c', tr, n')"
    and c: "content resp = [t]"
    using callTool_oneBlock by blast
  have "run (handleInput JSON_parse server input) e n c
          = (Inr (), c',
             tr @ [Printed (LegacyResponse
                     (if isError resp then LegacyFailure t None else LegacySuccess t))],
             n')"
    using assms r c
    by (simp add: handleInput_def dispatch_def server_def run_tryCatch run_await emitLegacy_def
          returned_def)
  with r c show ?thesis by blast
qed

lemma parse_legacyKeyLine:
  "parseJson legacyKeyLine
     = Inr (JObj [(''command'', JStr ''pressKey''), (''arguments'', JObj [(''key'', JStr ''Enter'')])])"
  by (simp add: legacyKeyLine_def parser_defs)

theorem C8_legacy_command_witness:
  "parseJson legacyKeyLine
     = Inr (JObj [(''command'', JStr ''pressKey''), (''arguments'', JObj [(''key'', JStr ''Enter'')])])
   \<and> truthy (getProp (JObj [(''command'', JStr ''pressKey''),
                              (''arguments'', JObj [(''key'', JStr ''Enter'')])]) ''command'')
   \<and> (\<exists>resp c' tr n' t.
         run (callTool \<lparr>name = str ''pressKey'', arguments = Some (JObj [(''key'', JStr ''Enter'')])\<rparr>
                :: ToolResponse action) obligingDriver 0 openSession = (Inr resp, c', tr, n')
       \<and> content resp = [t]
       \<and> run (handleInput parseJson server legacyKeyLine) obligingDriver 0 openSession
           = (Inr (), c',
              tr @ [Printed (LegacyResponse
                      (if isError resp then LegacyFailure t None else LegacySuccess t))],
              n'))
   \<and> run (handleInput parseJson server legacyKeyLine) obligingDriver 0 openSession
       = (Inr (), openSession,
          [Called (PageMethod 3 ''keyboard.press'' [str ''Enter'']),
           Printed (LegacyResponse (LegacySuccess (Lit ''Key pressed successfully'')))],
          2)"
proof -
  let ?msg = "JObj [(''command'', JStr ''pressKey''), (''arguments'', JObj [(''key'', JStr ''Enter'')])]"
  have h2: "?msg \<noteq> JNull" by simp
  have h3: "getProp ?msg ''method'' \<noteq> str ''initialize''" by (simp add: str_def)
  have h4: "getProp ?msg ''method'' \<noteq> str ''notifications/initialized''" by (simp add: str_def)
  have h5: "getProp ?msg ''method'' \<noteq> str ''tools/list''" by (simp add: str_def)
  have h6: "getProp ?msg ''method'' \<noteq> str ''tools/call''" by (simp add: str_def)
  have h7: "truthy (getProp ?msg ''command'')" by simp
  have direct: "run (handleInput parseJson server legacyKeyLine) obligingDriver 0 openSession
       = (Inr (), openSession,
          [Called (PageMethod 3 ''keyboard.press'' [str ''Enter'']),
           Printed (LegacyResponse (LegacySuccess (Lit ''Key pressed successfully'')))],
          2)"
    by (simp add: parse_legacyKeyLine handleInput_def dispatch_def server_def callTool_def
          toolSwitch_def pressKey_def facade_defs str_def reading_def success_def emitLegacy_def
          sample_defs)
  show ?thesis
    using parse_legacyKeyLine h7 direct
      C8_legacy_command [of parseJson legacyKeyLine "?msg" obligingDriver 0 openSession,
        OF parse_legacyKeyLine h2 h3 h4 h5 h6 h7]
    by (simp add: str_def)
qed

text \<open>
  C8 as stated fails: the legacy response to an error carries no suggestion. A click
  without a selector is answered with the message only; and when the facade fails with
  a suggestion, the suggestion is part of the message text.
\<close>

theorem C8_counterexample:
  "run (handleInput parseJson server legacyClickLine) obligingDriver 0 openSession
     = (Inr (), openSession,
        [Printed (LegacyResponse (LegacyFailure (Lit ''Selector is required'') None))], 0)
   \<and> run (handleInput parseJson server legacyTitleLine) obligingDriver 0 playwrightController
     = (Inr (), playwrightController,
        [Printed (LegacyResponse
           (LegacyFailure
              (Lit (''Error: Failed to get page title'' @ [CHR 0x0A]
                    @ ''Suggestion: Check if the page is loaded''))
              None))],
        0)"
proof -
  have p1: "parseJson legacyClickLine = Inr (JObj [(''command'', JStr ''click'')])"
    by (simp add: legacyClickLine_def parser_defs)
  have p2: "parseJson legacyTitleLine = Inr (JObj [(''command'', JStr ''getPageTitle'')])"
    by (simp add: legacyTitleLine_def parser_defs)
  show ?thesis
    by (simp add: p1 p2 handleInput_def dispatch_def server_def callTool_def toolSwitch_def
          getPageTitle_def facade_defs str_def reading_def failure_def success_def emitLegacy_def
          errorText_def sample_defs)
qed

section \<open>No handshake\<close>

text \<open>
  C10. \<^verbatim>\<open>handleInput\<close> reads the line, the server and the controller and nothing else: the
  process keeps no record of an \<^verbatim>\<open>initialize\<close> request. An \<^verbatim>\<open>initialize\<close> request is
  answered and changes nothing. A \<^verbatim>\<open>tools/list\<close> request is answered with the registry
  whatever the state of the controller, and a \<^verbatim>\<open>tools/call\<close> request is answered with what
  the call handler returns in that state; neither is ever rejected.
\<close>

theorem C10_no_handshake_gating:
  assumes "JSON_parse input = Inr msg" and "msg \<noteq> JNull"
  shows "(getProp msg ''method'' = str ''initialize'' \<longrightarrow>
            run (handleInput JSON_parse srv input) e n c
              = (Inr (), c,
                 [Printed (JsonRpcResult (getProp msg ''id'')
                    (InitializeResult ''2024-11-05'' (capabilities srv) (configName srv)
                       (configVersion srv)))],
                 n))
       \<and> (getProp msg ''method'' = str ''tools/list'' \<longrightarrow>
            run (handleInput JSON_parse server input) e n c
              = (Inr (), c,
                 [Printed (JsonRpcResult (getProp msg ''id'') (ListToolsResult tools))], n))
       \<and> (getProp msg ''method'' = str ''tools/call'' \<and> getProp msg ''params'' = Some params
            \<and> params \<noteq> JNull \<longrightarrow>
            (\<exists>resp c' tr n'.
               run (callTool \<lparr>name = getProp params ''name'',
                                arguments = getProp params ''arguments''\<rparr>
                      :: ToolResponse action) e n c = (Inr resp, c', tr, n')
             \<and> run (handleInput JSON_parse server input) e n c
                 = (Inr (), c',
                    tr @ [Printed (JsonRpcResult (getProp msg ''id'') (CallToolResult resp))],
                    n')))"
proof (intro conjI impI)
  assume "getProp msg ''method'' = str ''initialize''"
  with assms show "run (handleInput JSON_parse srv input) e n c
              = (Inr (), c,
                 [Printed (JsonRpcResult (getProp msg ''id'')
                    (InitializeResult ''2024-11-05'' (capabilities srv) (configName srv)
                       (configVersion srv)))],
                 n)"
    by (simp add: handleInput_def dispatch_def run_tryCatch returned_def)
next
  assume "getProp msg ''method'' = str ''tools/list''"
  with assms show "run (handleInput JSON_parse server input) e n c
              = (Inr (), c,
                 [Printed (JsonRpcResult (getProp msg ''id'') (ListToolsResult tools))], n)"
    by (simp add: handleInput_def dispatch_def run_tryCatch run_await returned_def server_def
          listTools_def str_def)
next
  assume a: "getProp msg ''method'' = str ''tools/call'' \<and> getProp msg ''params'' = Some params
             \<and> params \<noteq> JNull"
  obtain resp c' tr n' t where
    r: "run (callTool \<lparr>name = getProp params ''name'', arguments = getProp params ''arguments''\<rparr>
              :: ToolResponse action) e n c = (Inr resp, c', tr, n')"
    using callTool_oneBlock by blast
  have "run (handleInput JSON_parse server input) e n c
          = (Inr (), c',
             tr @ [Printed (JsonRpcResult (getProp msg ''id'') (CallToolResult resp))], n')"
    using assms a r
    by (simp add: handleInput_def dispatch_def run_tryCatch run_await returned_def server_def
          str_def emitCallResult_def)
  with r show "\<exists>resp c' tr n'.
               run (callTool \<lparr>name = getProp params ''name'',
                                arguments = getProp params ''arguments''\<rparr>
                      :: ToolResponse action) e n c = (Inr resp, c', tr, n')
             \<and> run (handleInput JSON_parse server input) e n c
                 = (Inr (), c',
                    tr @ [Printed (JsonRpcResult (getProp msg ''id'') (CallToolResult resp))],
                    n')"
    by blast
qed

lemma parse_toolsListLine:
  "parseJson toolsListLine
     = Inr (JObj [(''jsonrpc'', JStr ''2.0''), (''id'', JNum 1), (''method'', JStr ''tools/list'')])"
  by (simp add: toolsListLine_def parser_defs)

theorem C10_no_handshake_gating_witness:
  "parseJson toolsListLine
     = Inr (JObj [(''jsonrpc'', JStr ''2.0''), (''id'', JNum 1), (''method'', JStr ''tools/list'')])
   \<and> run (handleInput parseJson server toolsListLine) lostDriver 0 playwrightController
       = (Inr (), playwrightController,
          [Printed (JsonRpcResult (Some (JNum 1)) (ListToolsResult tools))], 0)"
proof -
  let ?msg = "JObj [(''jsonrpc'', JStr ''2.0''), (''id'', JNum 1), (''method'', JStr ''tools/list'')]"
  have h2: "?msg \<noteq> JNull" by simp
  show ?thesis
    using parse_toolsListLine
      C10_no_handshake_gating [of parseJson toolsListLine "?msg" server lostDriver 0
        playwrightController, OF parse_toolsListLine h2]
    by (simp add: str_def)
qed

section \<open>Malformed input\<close>

text \<open>
  C2, as the code has it. A line that is not JSON and does not contain the text
  \<^verbatim>\<open>"id"\<close> is answered with a JSON-RPC error (code -32603, the message of the syntax error,
  id null). A \<^verbatim>\<open>tools/call\<close> request without \<^verbatim>\<open>params\<close> is answered with such an error
  (with the request's id when the line contains the text \<^verbatim>\<open>"id"\<close>). A line that parses to a
  value with none of the four methods and no truthy command is ignored: nothing is
  printed. In all three cases the controller is unchanged and \<^verbatim>\<open>handleInput\<close> returns
  normally.
\<close>

theorem C2_malformed_input:
  "(JSON_parse input = Inl m \<and> \<not> includesText input quotedId \<longrightarrow>
      run (handleInput JSON_parse srv input) e n c
        = (Inr (), c,
           [Printed (JsonRpcError (Some JNull) (- 32603) m ''Check input format'')], n))
   \<and> (JSON_parse input = Inr msg \<and> msg \<noteq> JNull
        \<and> getProp msg ''method'' = str ''tools/call'' \<and> getProp msg ''params'' = None \<longrightarrow>
      run (handleInput JSON_parse server input) e n c
        = (Inr (), c,
           [Printed (JsonRpcError
              (if includesText input quotedId then getProp msg ''id'' else Some JNull)
              (- 32603) (cannotRead ''undefined'' ''name'') ''Check input format'')],
           n))
   \<and> (JSON_parse input = Inr msg \<and> msg \<noteq> JNull
        \<and> getProp msg ''method'' \<noteq> str ''initialize''
        \<and> getProp msg ''method'' \<noteq> str ''notifications/initialized''
        \<and> getProp msg ''method'' \<noteq> str ''tools/list''
        \<and> getProp msg ''method'' \<noteq> str ''tools/call''
        \<and> \<not> truthy (getProp msg ''command'') \<longrightarrow>
      run (handleInput JSON_parse srv input) e n c = (Inr (), c, [], n))"
  by (auto simp add: handleInput_def dispatch_def run_tryCatch returned_def throw_def server_def
        str_def)

theorem C2_malformed_input_witness:
  "parseJson notJsonLine = Inl ''Unexpected token''
   \<and> \<not> includesText notJsonLine quotedId
   \<and> run (handleInput parseJson server notJsonLine) obligingDriver 0 openSession
       = (Inr (), openSession,
          [Printed (JsonRpcError (Some JNull) (- 32603) ''Unexpected token'' ''Check input format'')],
          0)"
proof -
  have p: "parseJson notJsonLine = Inl ''Unexpected token''"
    by (simp add: notJsonLine_def parser_defs)
  have i: "\<not> includesText notJsonLine quotedId"
    by (simp add: notJsonLine_def quotedId_def)
  show ?thesis
    using p i
      C2_malformed_input [of parseJson notJsonLine "''Unexpected token''" server obligingDriver 0
        openSession]
    by simp
qed

text \<open>
  C2 as stated fails: a request without a method is not answered with an error
  response; nothing is printed.
\<close>

theorem C2_counterexample:
  "run (handleInput parseJson server noMethodLine) obligingDriver 0 openSession
     = (Inr (), openSession, [], 0)"
proof -
  have p: "parseJson noMethodLine = Inr (JObj [(''jsonrpc'', JStr ''2.0''), (''id'', JNum 5)])"
    by (simp add: noMethodLine_def parser_defs)
  show ?thesis
    by (simp add: p handleInput_def dispatch_def run_tryCatch returned_def str_def)
qed

text \<open>
  The \<^verbatim>\<open>catch\<close> block of \<^verbatim>\<open>handleInput\<close> parses the line again when the line contains the
  text \<^verbatim>\<open>"id"\<close>. For a line that is not JSON the second parse throws out of the \<^verbatim>\<open>catch\<close>
  block: nothing is printed and the promise of \<^verbatim>\<open>handleInput\<close> is rejected, which
  \<^verbatim>\<open>connect\<close> does not handle.
\<close>

lemma handleInput_rejected_by_second_parse:
  "JSON_parse input = Inl m \<Longrightarrow> includesText input quotedId \<Longrightarrow>
   run (handleInput JSON_parse srv input) e n c = (Inl (SyntaxError m), c, [], n)"
  by (simp add: handleInput_def run_tryCatch throw_def)

lemma truncated_line_is_not_answered:
  "stdout (onData parseJson server liveWorld (truncatedLine @ [CHR 0x0A]) startProcess) = []
   \<and> unhandled (onData parseJson server liveWorld (truncatedLine @ [CHR 0x0A]) startProcess)
       = [SyntaxError ''Unexpected token'']"
proof -
  have p: "parseJson truncatedLine = Inl ''Unexpected token''"
    by (simp add: truncatedLine_def parser_defs)
  have i: "includesText truncatedLine quotedId"
    by (simp add: truncatedLine_def quotedId_def)
  have s: "splitLines (truncatedLine @ [CHR 0x0A]) = [truncatedLine, []]"
    by (simp add: truncatedLine_def)
  have b: "\<not> blank truncatedLine"
    by (simp add: truncatedLine_def blank_def trimsAway_def)
  show ?thesis
    by (simp add: onData_def startProcess_def s b turn_def handleInput_def p i tryCatch_def
          throw_def)
qed

section \<open>Insights when the completion request fails\<close>




section \<open>Two requests in one chunk\<close>

lemma splitLines_line:
  "CHR 0x0A \<notin> set l \<Longrightarrow> splitLines (l @ CHR 0x0A # cs) = l # splitLines cs"
  by (induction l) (auto split: list.splits)

lemma onData_two_lines:
  assumes "CHR 0x0A \<notin> set l1" and "\<not> blank l1" and "CHR 0x0A \<notin> set l2" and "\<not> blank l2"
    and "buffer \<sigma> = []"
  shows "onData JSON_parse srv w (l1 @ [CHR 0x0A] @ l2 @ [CHR 0x0A]) \<sigma>
       = turn w (handleInput JSON_parse srv l2) (turn w (handleInput JSON_parse srv l1) \<sigma>)"
proof -
  from assms(5) have e: "\<sigma>\<lparr>buffer := []\<rparr> = \<sigma>" by (cases \<sigma>) simp
  show ?thesis
    using assms(1-4) by (simp add: onData_def Let_def splitLines_line assms(5) e)
qed

lemmas loop_defs =
  turn_def handleInput_def dispatch_def server_def callTool_def toolSwitch_def facade_defs
  str_def reading_def success_def emitCallResult_def settle_def mkObj_def List.map_filter_def
  waitForSelector_def getPageTitle_def

lemma both_in_flight:
  assumes p1: "JSON_parse l1 = Inr (JObj [(''jsonrpc'', JStr ''2.0''), (''id'', i1),
          (''method'', JStr ''tools/call''),
          (''params'', JObj [(''name'', JStr ''waitForSelector''),
                             (''arguments'', JObj [(''selector'', JStr sel)])])])"
    and sel: "sel \<noteq> []"
    and p2: "JSON_parse l2 = Inr (JObj [(''jsonrpc'', JStr ''2.0''), (''id'', i2),
          (''method'', JStr ''tools/call''),
          (''params'', JObj [(''name'', JStr ''getPageTitle''), (''arguments'', JObj [])])])"
    and st: "state (controller \<sigma>)
               = \<lparr>browser = Some b, browserContext = Some x, page = Some p, debug = d\<rparr>"
    and w: "connected w b" and idle: "inFlight \<sigma> = []"
  shows "map awaited (inFlight (turn w (handleInput JSON_parse server l2) (turn w (handleInput JSON_parse server l1) \<sigma>)))
           = [Some (PageMethod p ''waitForSelector'' [str sel, Some (JObj [(''timeout'', JNum 30000)])]),
              Some (PageMethod p ''title'' [])]
       \<and> stdout (turn w (handleInput JSON_parse server l2) (turn w (handleInput JSON_parse server l1) \<sigma>)) = stdout \<sigma>"
  using sel p1 p2 st w idle by (simp add: loop_defs)

lemma second_answered_first:
  assumes p1: "JSON_parse l1 = Inr (JObj [(''jsonrpc'', JStr ''2.0''), (''id'', i1),
          (''method'', JStr ''tools/call''),
          (''params'', JObj [(''name'', JStr ''waitForSelector''),
                             (''arguments'', JObj [(''selector'', JStr sel)])])])"
    and sel: "sel \<noteq> []"
    and p2: "JSON_parse l2 = Inr (JObj [(''jsonrpc'', JStr ''2.0''), (''id'', i2),
          (''method'', JStr ''tools/call''),
          (''params'', JObj [(''name'', JStr ''getPageTitle''), (''arguments'', JObj [])])])"
    and st: "state (controller \<sigma>)
               = \<lparr>browser = Some b, browserContext = Some x, page = Some p, debug = d\<rparr>"
    and w: "connected w b" and idle: "inFlight \<sigma> = []"
  shows "stdout (settle w' 1 Tick (settle w' 1 Tick (settle w' 1 (CallSettled (Fulfilled t))
            (turn w (handleInput JSON_parse server l2) (turn w (handleInput JSON_parse server l1) \<sigma>)))))
           = stdout \<sigma> @ [JsonRpcResult (Some i2)
               (CallToolResult \<lparr>content = [Str (orElse t (JStr []))], isError = False\<rparr>)]
       \<and> map awaited (inFlight (settle w' 1 Tick (settle w' 1 Tick
            (settle w' 1 (CallSettled (Fulfilled t))
            (turn w (handleInput JSON_parse server l2) (turn w (handleInput JSON_parse server l1) \<sigma>))))))
           = [Some (PageMethod p ''waitForSelector'' [str sel, Some (JObj [(''timeout'', JNum 30000)])])]"
  using sel p1 p2 st w idle by (simp add: loop_defs)

lemma answered_in_arrival_order:
  assumes p1: "JSON_parse l1 = Inr (JObj [(''jsonrpc'', JStr ''2.0''), (''id'', i1),
          (''method'', JStr ''tools/call''),
          (''params'', JObj [(''name'', JStr ''waitForSelector''),
                             (''arguments'', JObj [(''selector'', JStr sel)])])])"
    and sel: "sel \<noteq> []"
    and p2: "JSON_parse l2 = Inr (JObj [(''jsonrpc'', JStr ''2.0''), (''id'', i2),
          (''method'', JStr ''tools/call''),
          (''params'', JObj [(''name'', JStr ''getPageTitle''), (''arguments'', JObj [])])])"
    and st: "state (controller \<sigma>)
               = \<lparr>browser = Some b, browserContext = Some x, page = Some p, debug = d\<rparr>"
    and w: "connected w b" and idle: "inFlight \<sigma> = []"
  shows "stdout (settle w' 0 Tick (settle w' 0 Tick (settle w' 0 (CallSettled (Fulfilled t))
           (settle w' 1 Tick (settle w' 1 Tick (settle w' 0 (CallSettled (Fulfilled v))
            (turn w (handleInput JSON_parse server l2) (turn w (handleInput JSON_parse server l1) \<sigma>))))))))
           = stdout \<sigma> @ [JsonRpcResult (Some i1)
               (CallToolResult \<lparr>content = [Lit ''Selector found successfully''], isError = False\<rparr>),
              JsonRpcResult (Some i2)
               (CallToolResult \<lparr>content = [Str (orElse t (JStr []))], isError = False\<rparr>)]"
  using sel p1 p2 st w idle by (simp add: loop_defs)

text \<open>
  C1, as the code has it. The listener calls \<^verbatim>\<open>handleInput\<close> for each line of a chunk in
  arrival order and does not wait for it: when two requests arrive in one chunk, the
  second is started in the same turn, right after the first has reached its first
  suspension point. For a \<^verbatim>\<open>waitForSelector\<close> request followed by a \<^verbatim>\<open>getPageTitle\<close>
  request in an open session, both driver calls are then in flight and nothing has been
  printed. Each response is printed when its own handler finishes: when the title call
  settles first, the second response is printed while the first request is still in
  flight; when the calls settle in arrival order, the responses are printed in arrival
  order.
\<close>

theorem C1_requests_overlap:
  assumes l1: "CHR 0x0A \<notin> set l1" "\<not> blank l1"
    and l2: "CHR 0x0A \<notin> set l2" "\<not> blank l2"
    and p1: "JSON_parse l1 = Inr (JObj [(''jsonrpc'', JStr ''2.0''), (''id'', i1),
          (''method'', JStr ''tools/call''),
          (''params'', JObj [(''name'', JStr ''waitForSelector''),
                             (''arguments'', JObj [(''selector'', JStr sel)])])])"
    and sel: "sel \<noteq> []"
    and p2: "JSON_parse l2 = Inr (JObj [(''jsonrpc'', JStr ''2.0''), (''id'', i2),
          (''method'', JStr ''tools/call''),
          (''params'', JObj [(''name'', JStr ''getPageTitle''), (''arguments'', JObj [])])])"
    and st: "state (controller \<sigma>)
               = \<lparr>browser = Some b, browserContext = Some x, page = Some p, debug = d\<rparr>"
    and w: "connected w b" and idle: "inFlight \<sigma> = []" and buf: "buffer \<sigma> = []"
  shows "(let started = onData JSON_parse server w (l1 @ [CHR 0x0A] @ l2 @ [CHR 0x0A]) \<sigma> in
          started = turn w (handleInput JSON_parse server l2)
                      (turn w (handleInput JSON_parse server l1) \<sigma>)
        \<and> map awaited (inFlight started)
            = [Some (PageMethod p ''waitForSelector'' [str sel, Some (JObj [(''timeout'', JNum 30000)])]),
               Some (PageMethod p ''title'' [])]
        \<and> stdout started = stdout \<sigma>
        \<and> stdout (settle w' 1 Tick (settle w' 1 Tick
                   (settle w' 1 (CallSettled (Fulfilled t)) started)))
            = stdout \<sigma> @ [JsonRpcResult (Some i2)
               (CallToolResult \<lparr>content = [Str (orElse t (JStr []))], isError = False\<rparr>)]
        \<and> map awaited (inFlight (settle w' 1 Tick (settle w' 1 Tick
                   (settle w' 1 (CallSettled (Fulfilled t)) started))))
            = [Some (PageMethod p ''waitForSelector'' [str sel, Some (JObj [(''timeout'', JNum 30000)])])]
        \<and> stdout (settle w' 0 Tick (settle w' 0 Tick (settle w' 0 (CallSettled (Fulfilled t))
                   (settle w' 1 Tick (settle w' 1 Tick
                   (settle w' 0 (CallSettled (Fulfilled v)) started))))))
            = stdout \<sigma> @ [JsonRpcResult (Some i1)
               (CallToolResult \<lparr>content = [Lit ''Selector found successfully''], isError = False\<rparr>),
               JsonRpcResult (Some i2)
               (CallToolResult \<lparr>content = [Str (orElse t (JStr []))], isError = False\<rparr>)])"
  unfolding Let_def onData_two_lines [OF l1 l2 buf]
  using both_in_flight [OF p1 sel p2 st w idle]
    second_answered_first [OF p1 sel p2 st w idle]
    answered_in_arrival_order [OF p1 sel p2 st w idle]
  by blast

lemma parse_waitLine:
  "parseJson waitLine
     = Inr (JObj [(''jsonrpc'', JStr ''2.0''), (''id'', JNum 1), (''method'', JStr ''tools/call''),
                  (''params'', JObj [(''name'', JStr ''waitForSelector''),
                                     (''arguments'', JObj [(''selector'', JStr ''#late'')])])])"
  by (simp add: waitLine_def parser_defs)

lemma parse_titleLine:
  "parseJson titleLine
     = Inr (JObj [(''jsonrpc'', JStr ''2.0''), (''id'', JNum 2), (''method'', JStr ''tools/call''),
                  (''params'', JObj [(''name'', JStr ''getPageTitle''), (''arguments'', JObj [])])])"
  by (simp add: titleLine_def parser_defs)

theorem C1_requests_overlap_witness:
  "stdout (settle liveWorld 0 Tick (settle liveWorld 0 Tick
     (settle liveWorld 0 (CallSettled (Fulfilled (str ''Home'')))
     (settle liveWorld 1 Tick (settle liveWorld 1 Tick
     (settle liveWorld 0 (CallSettled (Fulfilled None)) afterTwoLines))))))
   = [JsonRpcResult (Some (JNum 1))
        (CallToolResult \<lparr>content = [Lit ''Selector found successfully''], isError = False\<rparr>),
      JsonRpcResult (Some (JNum 2))
        (CallToolResult \<lparr>content = [Str (str ''Home'')], isError = False\<rparr>)]"
proof -
  have l1: "CHR 0x0A \<notin> set waitLine" "\<not> blank waitLine"
    by (simp_all add: waitLine_def blank_def trimsAway_def)
  have l2: "CHR 0x0A \<notin> set titleLine" "\<not> blank titleLine"
    by (simp_all add: titleLine_def blank_def trimsAway_def)
  have sel: "''#late'' \<noteq> []" by simp
  have st: "state (controller (startProcess\<lparr>controller := openSession\<rparr>))
              = \<lparr>browser = Some 1, browserContext = Some 2, page = Some 3, debug = JBool False\<rparr>"
    by (simp add: openSession_def)
  have w: "connected liveWorld 1" by (simp add: liveWorld_def)
  have idle: "inFlight (startProcess\<lparr>controller := openSession\<rparr>) = []"
    by (simp add: startProcess_def)
  have buf: "buffer (startProcess\<lparr>controller := openSession\<rparr>) = []"
    by (simp add: startProcess_def)
  have out: "stdout (startProcess\<lparr>controller := openSession\<rparr>) = []"
    by (simp add: startProcess_def)
  have title: "orElse (str ''Home'') (JStr []) = str ''Home''"
    by (simp add: orElse_def str_def)
  show ?thesis
    unfolding afterTwoLines_def
    using
      C1_requests_overlap
        [where JSON_parse = parseJson and t = "str ''Home''" and v = None and w' = liveWorld,
         OF l1 l2 parse_waitLine sel parse_titleLine st w idle buf,
         unfolded Let_def out title append_Nil]
    by blast
qed

text \<open>
  C1 as stated fails: after the chunk both invocations are in flight at once, and when
  the title call settles first the response to the second request is printed while the
  first is still in flight.
\<close>

theorem C1_counterexample:
  "map awaited (inFlight afterTwoLines)
     = [Some (PageMethod 3 ''waitForSelector''
                [str ''#late'', Some (JObj [(''timeout'', JNum 30000)])]),
        Some (PageMethod 3 ''title'' [])]
   \<and> stdout afterTwoLines = []
   \<and> stdout (settle liveWorld 1 Tick (settle liveWorld 1 Tick
        (settle liveWorld 1 (CallSettled (Fulfilled (str ''Home''))) afterTwoLines)))
     = [JsonRpcResult (Some (JNum 2))
          (CallToolResult \<lparr>content = [Str (str ''Home'')], isError = False\<rparr>)]
   \<and> map awaited (inFlight (settle liveWorld 1 Tick (settle liveWorld 1 Tick
        (settle liveWorld 1 (CallSettled (Fulfilled (str ''Home''))) afterTwoLines))))
     = [Some (PageMethod 3 ''waitForSelector''
                [str ''#late'', Some (JObj [(''timeout'', JNum 30000)])])]"
proof -
  have l1: "CHR 0x0A \<notin> set waitLine" "\<not> blank waitLine"
    by (simp_all add: waitLine_def blank_def trimsAway_def)
  have l2: "CHR 0x0A \<notin> set titleLine" "\<not> blank titleLine"
    by (simp_all add: titleLine_def blank_def trimsAway_def)
  have buf: "buffer (startProcess\<lparr>controller := openSession\<rparr>) = []"
    by (simp add: startProcess_def)
  have started: "afterTwoLines
      = turn liveWorld (handleInput parseJson server titleLine)
          (turn liveWorld (handleInput parseJson server waitLine)
             (startProcess\<lparr>controller := openSession\<rparr>))"
    unfolding afterTwoLines_def by (rule onData_two_lines [OF l1 l2 buf])
  show ?thesis
    by (simp add: started parse_waitLine parse_titleLine loop_defs liveWorld_def startProcess_def
          openSession_def orElse_def)
qed

end
